theory Spec2Isabelle
  imports Complex_Main
begin

section \<open>Qt value types used by the selection tools\<close>

text \<open>
  The selection tools of \<^verbatim>\<open>selection_tools.py\<close> work on Qt value types. Every pointer
  position that reaches a tool has been truncated to integers (\<^verbatim>\<open>int(image_pos.x())\<close>), so
  the points a tool stores are pairs of integers. The scale factor and the handle geometry are
  Python floats, idealised here as real numbers; the rotation angle is computed with the
  rounding of float arithmetic.

  PyQt gives its value types a truth value: a \<^verbatim>\<open>QPointF\<close> is false when it is the
  null point (0, 0), a \<^verbatim>\<open>QRect\<close> is false when it is not valid. The tests
  \<^verbatim>\<open>if not self.start_pos\<close> and \<^verbatim>\<open>if not self.selection_rect\<close> of the source are
  therefore modelled by \<open>point_truthy\<close> and \<open>rect_truthy\<close>.
\<close>

type_synonym ipoint = "int \<times> int"
type_synonym rpoint = "real \<times> real"

definition point_truthy :: "ipoint option \<Rightarrow> bool" where
  "point_truthy p = (case p of None \<Rightarrow> False | Some q \<Rightarrow> q \<noteq> (0, 0))"

text \<open>Python's \<^verbatim>\<open>int(v)\<close> on a float truncates toward zero.\<close>

definition py_int :: "real \<Rightarrow> int" where
  "py_int v = (if 0 \<le> v then \<lfloor>v\<rfloor> else \<lceil>v\<rceil>)"

text \<open>C++ integer division by two, as in \<^verbatim>\<open>QRect::center\<close>, truncates toward zero.\<close>

definition c_div2 :: "int \<Rightarrow> int" where
  "c_div2 n = (if 0 \<le> n then n div 2 else - ((- n) div 2))"

text \<open>
  A \<^verbatim>\<open>QRect\<close> stores its two inclusive corners; \<^verbatim>\<open>QRect(x, y, w, h)\<close> has the right
  edge \<open>x + w - 1\<close> and the bottom edge \<open>y + h - 1\<close>.
\<close>

record qrect =
  r_x1 :: int
  r_y1 :: int
  r_x2 :: int
  r_y2 :: int

definition QRect :: "int \<Rightarrow> int \<Rightarrow> int \<Rightarrow> int \<Rightarrow> qrect" where
  "QRect x y w h = \<lparr>r_x1 = x, r_y1 = y, r_x2 = x + w - 1, r_y2 = y + h - 1\<rparr>"

definition rect_width :: "qrect \<Rightarrow> int" where
  "rect_width r = r_x2 r - r_x1 r + 1"

definition rect_height :: "qrect \<Rightarrow> int" where
  "rect_height r = r_y2 r - r_y1 r + 1"

definition rect_size :: "qrect \<Rightarrow> int \<times> int" where
  "rect_size r = (rect_width r, rect_height r)"

definition isValid :: "qrect \<Rightarrow> bool" where
  "isValid r = (r_x1 r \<le> r_x2 r \<and> r_y1 r \<le> r_y2 r)"

definition rect_truthy :: "qrect option \<Rightarrow> bool" where
  "rect_truthy r = (case r of None \<Rightarrow> False | Some q \<Rightarrow> isValid q)"

definition translate :: "qrect \<Rightarrow> int \<Rightarrow> int \<Rightarrow> qrect" where
  "translate r dx dy =
     \<lparr>r_x1 = r_x1 r + dx, r_y1 = r_y1 r + dy, r_x2 = r_x2 r + dx, r_y2 = r_y2 r + dy\<rparr>"

definition setLeft :: "qrect \<Rightarrow> int \<Rightarrow> qrect" where
  "setLeft r v = r\<lparr>r_x1 := v\<rparr>"

definition setRight :: "qrect \<Rightarrow> int \<Rightarrow> qrect" where
  "setRight r v = r\<lparr>r_x2 := v\<rparr>"

definition setTop :: "qrect \<Rightarrow> int \<Rightarrow> qrect" where
  "setTop r v = r\<lparr>r_y1 := v\<rparr>"

definition setBottom :: "qrect \<Rightarrow> int \<Rightarrow> qrect" where
  "setBottom r v = r\<lparr>r_y2 := v\<rparr>"

definition setWidth :: "qrect \<Rightarrow> int \<Rightarrow> qrect" where
  "setWidth r w = r\<lparr>r_x2 := r_x1 r + w - 1\<rparr>"

definition setHeight :: "qrect \<Rightarrow> int \<Rightarrow> qrect" where
  "setHeight r h = r\<lparr>r_y2 := r_y1 r + h - 1\<rparr>"

text \<open>
  \<^verbatim>\<open>QRect::normalized\<close> of Qt 6 swaps the corners of a rectangle of negative extent and
  makes them inclusive again.
\<close>

definition normalized :: "qrect \<Rightarrow> qrect" where
  "normalized r =
     (let a = (if r_x2 r < r_x1 r then r\<lparr>r_x1 := r_x2 r + 1, r_x2 := r_x1 r - 1\<rparr> else r)
      in if r_y2 r < r_y1 r then a\<lparr>r_y1 := r_y2 r + 1, r_y2 := r_y1 r - 1\<rparr> else a)"

definition center :: "qrect \<Rightarrow> ipoint" where
  "center r = (c_div2 (r_x1 r + r_x2 r), c_div2 (r_y1 r + r_y2 r))"

definition rect_isNull :: "qrect \<Rightarrow> bool" where
  "rect_isNull r = (r_x2 r = r_x1 r - 1 \<and> r_y2 r = r_y1 r - 1)"

text \<open>
  \<^verbatim>\<open>QRect::contains(x, y)\<close> of Qt 6: a null rectangle contains nothing; a rectangle of
  negative extent is tested on the span between its swapped corners, as \<^verbatim>\<open>normalized\<close>
  would give it.
\<close>

definition contains :: "qrect \<Rightarrow> int \<Rightarrow> int \<Rightarrow> bool" where
  "contains r x y =
     (if rect_isNull r then False
      else
        let l = (if r_x2 r < r_x1 r - 1 then r_x2 r + 1 else r_x1 r);
            rr = (if r_x2 r < r_x1 r - 1 then r_x1 r - 1 else r_x2 r);
            t = (if r_y2 r < r_y1 r - 1 then r_y2 r + 1 else r_y1 r);
            b = (if r_y2 r < r_y1 r - 1 then r_y1 r - 1 else r_y2 r)
        in \<not> (x < l \<or> x > rr) \<and> \<not> (y < t \<or> y > b))"

definition adjusted :: "qrect \<Rightarrow> int \<Rightarrow> int \<Rightarrow> int \<Rightarrow> int \<Rightarrow> qrect" where
  "adjusted r dx1 dy1 dx2 dy2 =
     \<lparr>r_x1 = r_x1 r + dx1, r_y1 = r_y1 r + dy1, r_x2 = r_x2 r + dx2, r_y2 = r_y2 r + dy2\<rparr>"

text \<open>
  The transform built by \<^verbatim>\<open>translate(c); rotate(angle); scale(s, s); translate(-c)\<close>
  maps a point \<open>p\<close> to \<open>c + R (s (p - c))\<close>, where \<open>R\<close> turns by \<open>angle\<close> degrees in Qt's
  coordinate system (y grows downwards).
\<close>

definition transform_map :: "ipoint \<Rightarrow> real \<Rightarrow> real \<Rightarrow> rpoint \<Rightarrow> rpoint" where
  "transform_map c angle s p =
     (let cx = real_of_int (fst c); cy = real_of_int (snd c);
          a = angle * pi / 180;
          px = s * (fst p - cx); py = s * (snd p - cy)
      in (cx + (cos a * px - sin a * py), cy + (sin a * px + cos a * py)))"

text \<open>
  \<^verbatim>\<open>QPolygonF::containsPoint\<close> with the odd-even rule counts the edges that a ray from the
  point to the left crosses; horizontal edges are skipped and the polygon is closed
  implicitly.
\<close>

definition isect_line :: "rpoint \<Rightarrow> rpoint \<Rightarrow> rpoint \<Rightarrow> int" where
  "isect_line p1 p2 pos =
     (if snd p1 = snd p2 then 0
      else
        let a = (if snd p2 < snd p1 then p2 else p1);
            b = (if snd p2 < snd p1 then p1 else p2);
            dir = (if snd p2 < snd p1 then - 1 else 1)
        in if snd a \<le> snd pos \<and> snd pos < snd b
           then (if fst a + ((fst b - fst a) / (snd b - snd a)) * (snd pos - snd a) \<le> fst pos
                 then dir else 0)
           else 0)"

fun winding :: "rpoint \<Rightarrow> rpoint list \<Rightarrow> rpoint \<Rightarrow> int" where
  "winding last_pt [] pos = 0"
| "winding last_pt (e # es) pos = isect_line last_pt e pos + winding e es pos"

definition containsPoint :: "rpoint list \<Rightarrow> rpoint \<Rightarrow> bool" where
  "containsPoint poly pos =
     (case poly of
        [] \<Rightarrow> False
      | p0 # ps \<Rightarrow>
          (winding p0 ps pos
             + (if last (p0 # ps) \<noteq> p0 then isect_line (last (p0 # ps)) p0 pos else 0)) mod 2 \<noteq> 0)"

text \<open>\<^verbatim>\<open>QPolygonF(QRectF(rect))\<close>: the closed outline of the rectangle, with exclusive edges.\<close>

definition rect_polygon :: "qrect \<Rightarrow> rpoint list" where
  "rect_polygon r =
     (let x = real_of_int (r_x1 r); y = real_of_int (r_y1 r);
          w = real_of_int (rect_width r); h = real_of_int (rect_height r)
      in [(x, y), (x + w, y), (x + w, y + h), (x, y + h), (x, y)])"

section \<open>Images and painting\<close>

text \<open>
  A pixel of a \<^verbatim>\<open>Format_ARGB32\<close> image is a non-premultiplied ARGB value with channels in
  0..255; an image is its size and its pixels.
\<close>

record rgba =
  red :: nat
  green :: nat
  blue :: nat
  alpha :: nat

definition transparent :: rgba where
  "transparent = \<lparr>red = 0, green = 0, blue = 0, alpha = 0\<rparr>"

definition white :: rgba where
  "white = \<lparr>red = 255, green = 255, blue = 255, alpha = 255\<rparr>"

text \<open>
  The raster engine of Qt 6 composes in premultiplied form. On a \<^verbatim>\<open>Format_ARGB32\<close> image it
  premultiplies the source and the destination pixel (\<^verbatim>\<open>qPremultiply\<close>), applies the
  composition function and converts the result back (\<^verbatim>\<open>qUnpremultiply\<close>). Products of two
  channels are divided by 255 with the rounding of \<^verbatim>\<open>BYTE_MUL\<close>. Every pixel under a drawn
  image takes this round trip, also where the source is transparent.
\<close>

definition qt_div_255 :: "nat \<Rightarrow> nat" where
  "qt_div_255 x = (x + x div 256 + 128) div 256"

definition BYTE_MUL :: "rgba \<Rightarrow> nat \<Rightarrow> rgba" where
  "BYTE_MUL p a =
     \<lparr>red = qt_div_255 (red p * a), green = qt_div_255 (green p * a),
      blue = qt_div_255 (blue p * a), alpha = qt_div_255 (alpha p * a)\<rparr>"

definition qPremultiply :: "rgba \<Rightarrow> rgba" where
  "qPremultiply p =
     \<lparr>red = qt_div_255 (red p * alpha p), green = qt_div_255 (green p * alpha p),
      blue = qt_div_255 (blue p * alpha p), alpha = alpha p\<rparr>"

definition qUnpremultiply :: "rgba \<Rightarrow> rgba" where
  "qUnpremultiply p =
     (if alpha p = 255 then p
      else if alpha p = 0 then transparent
      else
        let inv_alpha = 16711935 div alpha p
        in \<lparr>red = ((red p * inv_alpha + 32768) div 65536) mod 256,
            green = ((green p * inv_alpha + 32768) div 65536) mod 256,
            blue = ((blue p * inv_alpha + 32768) div 65536) mod 256,
            alpha = alpha p\<rparr>)"

datatype composition_mode = SourceOver | DestinationIn | DestinationOut

text \<open>
  The composition functions on premultiplied pixels (\<^verbatim>\<open>comp_func_SourceOver\<close>,
  \<^verbatim>\<open>comp_func_DestinationIn\<close>, \<^verbatim>\<open>comp_func_DestinationOut\<close> at full opacity of the
  painter).
\<close>

definition comp_func :: "composition_mode \<Rightarrow> rgba \<Rightarrow> rgba \<Rightarrow> rgba" where
  "comp_func m s d =
     (case m of
        SourceOver \<Rightarrow>
          (if alpha s = 255 then s
           else if s = transparent then d
           else
             let k = BYTE_MUL d (255 - alpha s)
             in \<lparr>red = red s + red k, green = green s + green k, blue = blue s + blue k,
                 alpha = alpha s + alpha k\<rparr>)
      | DestinationIn \<Rightarrow> BYTE_MUL d (alpha s)
      | DestinationOut \<Rightarrow> BYTE_MUL d (255 - alpha s))"

definition blend :: "composition_mode \<Rightarrow> rgba \<Rightarrow> rgba \<Rightarrow> rgba" where
  "blend m s d = qUnpremultiply (comp_func m (qPremultiply s) (qPremultiply d))"

record qimage =
  img_w :: int
  img_h :: int
  img_pix :: "int \<Rightarrow> int \<Rightarrow> rgba"

definition image_size :: "qimage \<Rightarrow> int \<times> int" where
  "image_size img = (img_w img, img_h img)"

definition in_image :: "qimage \<Rightarrow> int \<Rightarrow> int \<Rightarrow> bool" where
  "in_image img x y = (0 \<le> x \<and> x < img_w img \<and> 0 \<le> y \<and> y < img_h img)"

text \<open>\<^verbatim>\<open>QImage(size, Format_ARGB32)\<close> followed by \<^verbatim>\<open>fill(QColor(0, 0, 0, 0))\<close>.\<close>

definition new_image :: "int \<times> int \<Rightarrow> qimage" where
  "new_image sz = \<lparr>img_w = fst sz, img_h = snd sz, img_pix = (\<lambda>x y. transparent)\<rparr>"

text \<open>\<^verbatim>\<open>painter.fillRect(img.rect(), color)\<close> on the whole image.\<close>

definition fill_rect_all :: "qimage \<Rightarrow> rgba \<Rightarrow> qimage" where
  "fill_rect_all img c =
     img\<lparr>img_pix := (\<lambda>x y. if in_image img x y then blend SourceOver c (img_pix img x y)
                              else img_pix img x y)\<rparr>"

text \<open>A brush-filled shape drawn without a pen: the covered pixels are blended with the colour.\<close>

definition fill_shape :: "qimage \<Rightarrow> (int \<Rightarrow> int \<Rightarrow> bool) \<Rightarrow> rgba \<Rightarrow> qimage" where
  "fill_shape img covered c =
     img\<lparr>img_pix := (\<lambda>x y. if in_image img x y \<and> covered x y
                              then blend SourceOver c (img_pix img x y)
                              else img_pix img x y)\<rparr>"

text \<open>
  \<^verbatim>\<open>painter.drawImage(QRect(0, 0, w, h), src, source_rect)\<close> where the source rectangle has
  the size of the target: the part of \<open>src\<close> under \<open>source_rect\<close> is drawn unscaled; the part
  of \<open>source_rect\<close> outside \<open>src\<close> draws nothing.
\<close>

definition draw_sub_image :: "qimage \<Rightarrow> qimage \<Rightarrow> qrect \<Rightarrow> qimage" where
  "draw_sub_image dst src source_rect =
     dst\<lparr>img_pix := (\<lambda>x y.
        if in_image dst x y \<and> x < rect_width source_rect \<and> y < rect_height source_rect
           \<and> in_image src (r_x1 source_rect + x) (r_y1 source_rect + y)
        then blend SourceOver (img_pix src (r_x1 source_rect + x) (r_y1 source_rect + y))
               (img_pix dst x y)
        else img_pix dst x y)\<rparr>"

text \<open>\<^verbatim>\<open>painter.drawImage(QPoint(tx, ty), src)\<close> with no world transform, in a given mode.\<close>

definition draw_image_at :: "composition_mode \<Rightarrow> ipoint \<Rightarrow> qimage \<Rightarrow> qimage \<Rightarrow> qimage" where
  "draw_image_at m pos src dst =
     dst\<lparr>img_pix := (\<lambda>x y.
        if in_image dst x y \<and> in_image src (x - fst pos) (y - snd pos)
        then blend m (img_pix src (x - fst pos) (y - snd pos)) (img_pix dst x y)
        else img_pix dst x y)\<rparr>"

text \<open>
  Qt's rasteriser is not part of the repository. It is a parameter of the model:
  \<open>smooth_scale img (w, h)\<close> are the pixels of \<^verbatim>\<open>img.scaled(w, h, SmoothTransformation)\<close>
  when the size changes, and \<open>warp c angle s pos img\<close> gives, for each device pixel, what
  \<^verbatim>\<open>drawImage(pos, img)\<close> contributes under the world transform about \<open>c\<close> (transparent where
  the image does not reach). With the same size \<^verbatim>\<open>scaled\<close> returns the image itself, and
  with rotation 0 and scale 1 the world transform is the identity and the image is drawn
  pixel for pixel. \<open>fill_ellipse (w, h)\<close> and \<open>fill_polygon pts\<close> say which pixels
  \<^verbatim>\<open>drawEllipse\<close> and \<^verbatim>\<open>drawPolygon\<close> cover.
\<close>

record qt_raster =
  smooth_scale :: "qimage \<Rightarrow> int \<times> int \<Rightarrow> int \<Rightarrow> int \<Rightarrow> rgba"
  warp :: "ipoint \<Rightarrow> real \<Rightarrow> real \<Rightarrow> ipoint \<Rightarrow> qimage \<Rightarrow> int \<Rightarrow> int \<Rightarrow> rgba"
  fill_ellipse :: "int \<times> int \<Rightarrow> int \<Rightarrow> int \<Rightarrow> bool"
  fill_polygon :: "ipoint list \<Rightarrow> int \<Rightarrow> int \<Rightarrow> bool"

definition scaled :: "qt_raster \<Rightarrow> qimage \<Rightarrow> int \<times> int \<Rightarrow> qimage" where
  "scaled qt img sz =
     (if sz = image_size img then img
      else \<lparr>img_w = fst sz, img_h = snd sz, img_pix = smooth_scale qt img sz\<rparr>)"

definition draw_transformed ::
  "qt_raster \<Rightarrow> composition_mode \<Rightarrow> ipoint \<Rightarrow> real \<Rightarrow> real \<Rightarrow> ipoint \<Rightarrow> qimage \<Rightarrow> qimage \<Rightarrow> qimage"
where
  "draw_transformed qt m c angle s pos src dst =
     (if angle = 0 \<and> s = 1 then draw_image_at m pos src dst
      else dst\<lparr>img_pix := (\<lambda>x y.
             if in_image dst x y then blend m (warp qt c angle s pos src x y) (img_pix dst x y)
             else img_pix dst x y)\<rparr>)"

section \<open>The controller\<close>

text \<open>
  The part of \<^verbatim>\<open>Controller\<close> (\<^verbatim>\<open>controller.py\<close>) that the selection tools read and
  write. A layer is the dictionary built by \<^verbatim>\<open>create_layer\<close>; a history entry is what
  \<^verbatim>\<open>save_to_history\<close> stores; the messages sent through \<^verbatim>\<open>status_updated\<close> are kept in
  a log, one constructor for each message text of the source.
\<close>

record layer =
  layer_name :: string
  layer_image :: qimage
  visible :: bool
  opacity :: int
  locked :: bool

record adjustments =
  original_images :: "(int \<times> qimage) list"
  adjustment_values :: "(string \<times> int) list"
  current_adjustment_type :: "string option"

record snapshot =
  snap_layers :: "layer list"
  snap_active :: int
  snap_adjustments :: adjustments

datatype status =
    Msg_operation_cancelled
  | Msg_selection_cancelled
  | Msg_selection_ready int int
  | Msg_layer_locked
  | Msg_polygon_first_point
  | Msg_polygon_point nat
  | Msg_polygon_needs_3_to_finish
  | Msg_polygon_needs_3
  | Msg_polygon_cancelled

datatype preview = Outline_preview | Floating_preview | Polygon_preview

record controller =
  current_image :: "qimage option"
  is_modified :: bool
  layers :: "layer list"
  active_layer_index :: int
  temp_pixmap :: "preview option"
  has_canvas :: bool
  undo_stack :: "snapshot list"
  redo_stack :: "snapshot list"
  is_recording :: bool
  pending_update :: bool
  adjust :: adjustments
  current_operation_saved :: bool
  status_log :: "status list"

definition MAX_HISTORY :: nat where
  "MAX_HISTORY = 20"

text \<open>\<^verbatim>\<open>deque(maxlen=MAX_HISTORY).append\<close>: a full deque drops its oldest entry.\<close>

definition deque_append :: "'a list \<Rightarrow> 'a \<Rightarrow> 'a list" where
  "deque_append xs x = (if MAX_HISTORY \<le> length xs then tl xs @ [x] else xs @ [x])"

definition status_emit :: "status \<Rightarrow> controller \<Rightarrow> controller" where
  "status_emit m c = c\<lparr>status_log := status_log c @ [m]\<rparr>"

definition save_to_history :: "controller \<Rightarrow> controller" where
  "save_to_history c =
     (if \<not> is_recording c \<or> layers c = [] then c
      else c\<lparr>undo_stack := deque_append (undo_stack c)
                 \<lparr>snap_layers = layers c, snap_active = active_layer_index c,
                  snap_adjustments = adjust c\<rparr>,
             redo_stack := []\<rparr>)"

definition draw_on_active_layer ::
  "controller \<Rightarrow> (qimage \<Rightarrow> qimage) \<Rightarrow> bool \<Rightarrow> bool \<Rightarrow> bool \<Rightarrow> controller"
where
  "draw_on_active_layer c painter_func save_history is_batch_start is_batch_end =
     (if active_layer_index c < 0 \<or> active_layer_index c \<ge> int (length (layers c)) then c
      else if locked (layers c ! nat (active_layer_index c)) then status_emit Msg_layer_locked c
      else
        let c1 = (if save_history \<and> (is_batch_start \<or> (\<not> is_batch_start \<and> \<not> is_batch_end))
                  then (if \<not> current_operation_saved c
                        then (save_to_history c)\<lparr>current_operation_saved := True\<rparr>
                        else c)
                  else c);
            active_layer = layers c1 ! nat (active_layer_index c1);
            temp_image = painter_func (layer_image active_layer);
            c2 = c1\<lparr>layers := (layers c1)[nat (active_layer_index c1) :=
                                        active_layer\<lparr>layer_image := temp_image\<rparr>],
                    pending_update := True,
                    is_modified := True\<rparr>
        in if is_batch_end then c2\<lparr>current_operation_saved := False\<rparr> else c2)"

section \<open>The selection tools\<close>

text \<open>
  One record holds the fields of \<^verbatim>\<open>BaseTool\<close>, \<^verbatim>\<open>BaseSelectTool\<close> and
  \<^verbatim>\<open>ImprovedPolygonSelectTool\<close>; \<open>kind\<close> is the class of the tool object and decides
  which override a method call reaches. Colours, the cursor shape and
  \<^verbatim>\<open>BaseTool.last_point\<close> are left out: the selection tools never read them back.
\<close>

datatype tool_kind = RectSelectTool | EllipseSelectTool | ImprovedPolygonSelectTool

datatype handle = H_tl | H_tr | H_bl | H_br | H_t | H_b | H_l | H_r

record tool_state =
  mouse_button :: "string option"
  is_ctrl_pressed :: bool
  is_shift_pressed :: bool
  is_right_button_during_drag :: bool

record select_tool =
  kind :: tool_kind
  start_pos :: "ipoint option"
  end_pos :: "ipoint option"
  drawing :: bool
  draw_batch_started :: bool
  tstate :: tool_state
  selection_rect :: "qrect option"
  is_floating :: bool
  selected_content :: "qimage option"
  selection_mask :: "qimage option"
  is_moving :: bool
  is_scaling :: bool
  is_rotating :: bool
  is_resizing :: bool
  resize_handle :: "handle option"
  last_mouse_pos :: "ipoint option"
  original_scale :: real
  original_angle :: real
  scale_factor :: real
  rotation_angle :: real
  scale_handle_rect :: "qrect option"
  rotate_handle_rect :: "qrect option"
  transformed_corners :: "rpoint list"
  rotate_handle_pos :: "rpoint option"
  resize_handles :: "(handle \<times> qrect) list"
  destroy_on_other_action :: bool
  points :: "ipoint list"
  original_points :: "ipoint list"
  temp_point :: "ipoint option"
  is_creating :: bool
  has_first_click :: bool

record world =
  tool :: select_tool
  ctl :: controller

datatype py_error = IndexError | AttributeError

definition handle_size :: int where
  "handle_size = 12"

definition hot_size :: int where
  "hot_size = handle_size * 2"

definition initial_tool_state :: tool_state where
  "initial_tool_state =
     \<lparr>mouse_button = None, is_ctrl_pressed = False, is_shift_pressed = False,
      is_right_button_during_drag = False\<rparr>"

text \<open>The state the constructors leave a tool of the given class in.\<close>

definition new_tool :: "tool_kind \<Rightarrow> select_tool" where
  "new_tool k =
     \<lparr>kind = k, start_pos = None, end_pos = None, drawing = False, draw_batch_started = False,
      tstate = initial_tool_state,
      selection_rect = None, is_floating = False, selected_content = None,
      selection_mask = None, is_moving = False, is_scaling = False, is_rotating = False,
      is_resizing = False, resize_handle = None, last_mouse_pos = None,
      original_scale = 1, original_angle = 0, scale_factor = 1, rotation_angle = 0,
      scale_handle_rect = None, rotate_handle_rect = None, transformed_corners = [],
      rotate_handle_pos = None, resize_handles = [], destroy_on_other_action = True,
      points = [], original_points = [], temp_point = None, is_creating = False,
      has_first_click = False\<rparr>"

definition emit :: "status \<Rightarrow> world \<Rightarrow> world" where
  "emit m w = w\<lparr>ctl := status_emit m (ctl w)\<rparr>"

subsection \<open>Events\<close>

datatype mouse_button_id = LeftButton | RightButton | OtherButton

text \<open>
  What a handler reads from a \<^verbatim>\<open>QMouseEvent\<close>: the button that caused it, the buttons
  held down, and the Ctrl and Shift modifiers.
\<close>

record mouse_event =
  ev_button :: mouse_button_id
  ev_left_down :: bool
  ev_right_down :: bool
  ev_ctrl :: bool
  ev_shift :: bool

datatype key =
    Key_Escape | Key_Enter | Key_Return
  | Key_Shift | Key_Control | Key_Alt | Key_Meta
  | Key_CapsLock | Key_NumLock | Key_ScrollLock
  | Key_Left | Key_Right | Key_Up | Key_Down
  | Key_PageUp | Key_PageDown | Key_Home | Key_End
  | Key_other nat

subsection \<open>\<^verbatim>\<open>BaseTool\<close>\<close>

definition BaseTool_mouse_press :: "mouse_event \<Rightarrow> select_tool \<Rightarrow> select_tool" where
  "BaseTool_mouse_press ev t =
     (let ts = tstate t;
          ts1 = (if ev_button ev = LeftButton
                 then ts\<lparr>mouse_button := Some ''left'', is_right_button_during_drag := False\<rparr>
                 else if ev_button ev = RightButton
                 then ts\<lparr>mouse_button := Some ''right'', is_right_button_during_drag := True\<rparr>
                 else ts)
      in t\<lparr>tstate := ts1\<lparr>is_ctrl_pressed := ev_ctrl ev, is_shift_pressed := ev_shift ev\<rparr>,
            draw_batch_started := False\<rparr>)"

definition BaseTool_mouse_move :: "mouse_event \<Rightarrow> select_tool \<Rightarrow> select_tool" where
  "BaseTool_mouse_move ev t =
     (let ts = tstate t;
          ts1 = (if ev_right_down ev
                 then ts\<lparr>is_right_button_during_drag := True, mouse_button := Some ''right''\<rparr>
                 else if ev_left_down ev
                 then ts\<lparr>is_right_button_during_drag := False, mouse_button := Some ''left''\<rparr>
                 else ts)
      in t\<lparr>tstate := ts1\<lparr>is_ctrl_pressed := ev_ctrl ev, is_shift_pressed := ev_shift ev\<rparr>\<rparr>)"

definition BaseTool_mouse_release :: "mouse_event \<Rightarrow> select_tool \<Rightarrow> select_tool" where
  "BaseTool_mouse_release ev t =
     (let ts = tstate t;
          ts1 = (if ev_button ev = LeftButton then ts\<lparr>mouse_button := Some ''left''\<rparr>
                 else if ev_button ev = RightButton then ts\<lparr>mouse_button := Some ''right''\<rparr>
                 else ts)
      in t\<lparr>tstate := ts1\<lparr>is_right_button_during_drag := False\<rparr>\<rparr>)"

definition reset_states :: "select_tool \<Rightarrow> select_tool" where
  "reset_states t = t\<lparr>tstate := initial_tool_state, draw_batch_started := False\<rparr>"

definition BaseTool_cancel :: "world \<Rightarrow> world" where
  "BaseTool_cancel w =
     w\<lparr>tool := reset_states ((tool w)\<lparr>drawing := False\<rparr>),
       ctl := status_emit Msg_operation_cancelled ((ctl w)\<lparr>temp_pixmap := None\<rparr>)\<rparr>"

subsection \<open>Handles and hit tests\<close>

definition corner :: "int \<Rightarrow> int \<Rightarrow> rpoint" where
  "corner x y = (real_of_int x, real_of_int y)"

definition handle_rect :: "rpoint \<Rightarrow> int \<Rightarrow> qrect" where
  "handle_rect p sz =
     QRect (py_int (fst p - real_of_int sz / 2)) (py_int (snd p - real_of_int sz / 2)) sz sz"

definition midpoint :: "rpoint \<Rightarrow> rpoint \<Rightarrow> rpoint" where
  "midpoint p q = ((fst p + fst q) / 2, (snd p + snd q) / 2)"

text \<open>
  \<^verbatim>\<open>_update_resize_handles\<close>; the list of corners is empty or holds the four corners that
  \<^verbatim>\<open>_update_handles\<close> has just stored. The dictionary keeps its insertion order.
\<close>

definition update_resize_handles :: "select_tool \<Rightarrow> select_tool" where
  "update_resize_handles t =
     (case transformed_corners t of
        [ptl, ptr, pbl, pbr] \<Rightarrow>
          t\<lparr>resize_handles :=
              [(H_tl, handle_rect ptl handle_size), (H_tr, handle_rect ptr handle_size),
               (H_bl, handle_rect pbl handle_size), (H_br, handle_rect pbr handle_size),
               (H_t, handle_rect (midpoint ptl ptr) handle_size),
               (H_b, handle_rect (midpoint pbl pbr) handle_size),
               (H_l, handle_rect (midpoint ptl pbl) handle_size),
               (H_r, handle_rect (midpoint ptr pbr) handle_size)]\<rparr>
      | _ \<Rightarrow> t)"

definition rotate_handle_point :: "ipoint \<Rightarrow> real \<Rightarrow> rpoint \<Rightarrow> rpoint" where
  "rotate_handle_point c s tr_corner =
     (let offset = 20 * s;
          dx = fst tr_corner - real_of_int (fst c);
          dy = snd tr_corner - real_of_int (snd c);
          len = sqrt (dx * dx + dy * dy)
      in if len > 0 then (fst tr_corner + (dx / len) * offset, snd tr_corner + (dy / len) * offset)
         else (fst tr_corner + offset, snd tr_corner - offset))"

definition update_handles :: "select_tool \<Rightarrow> select_tool" where
  "update_handles t =
     (case selection_rect t of
        None \<Rightarrow> t
      | Some r \<Rightarrow>
          if \<not> isValid r then t
          else
            let c = center r;
                corners = [corner (r_x1 r) (r_y1 r), corner (r_x2 r) (r_y1 r),
                           corner (r_x1 r) (r_y2 r), corner (r_x2 r) (r_y2 r)];
                tc = map (transform_map c (rotation_angle t) (scale_factor t)) corners;
                rot = rotate_handle_point c (scale_factor t) (tc ! 1)
            in update_resize_handles
                 (t\<lparr>transformed_corners := tc,
                    scale_handle_rect := Some (handle_rect (tc ! 3) hot_size),
                    rotate_handle_rect := Some (handle_rect rot hot_size),
                    rotate_handle_pos := Some rot\<rparr>))"

definition hit_scale_handle :: "select_tool \<Rightarrow> int \<Rightarrow> int \<Rightarrow> bool" where
  "hit_scale_handle t x y =
     (case scale_handle_rect t of None \<Rightarrow> False | Some r \<Rightarrow> isValid r \<and> contains r x y)"

definition hit_rotate_handle :: "select_tool \<Rightarrow> int \<Rightarrow> int \<Rightarrow> bool" where
  "hit_rotate_handle t x y =
     (case rotate_handle_rect t of None \<Rightarrow> False | Some r \<Rightarrow> isValid r \<and> contains r x y)"

definition get_resize_handle_at :: "select_tool \<Rightarrow> int \<Rightarrow> int \<Rightarrow> handle option" where
  "get_resize_handle_at t x y =
     map_option fst
       (find (\<lambda>(n, r). contains (adjusted r (- 10) (- 10) 10 10) x y) (resize_handles t))"

definition pt_real :: "ipoint \<Rightarrow> rpoint" where
  "pt_real p = (real_of_int (fst p), real_of_int (snd p))"

definition BaseSelectTool_is_point_in_selection :: "select_tool \<Rightarrow> int \<Rightarrow> int \<Rightarrow> bool" where
  "BaseSelectTool_is_point_in_selection t x y =
     (case selection_rect t of
        None \<Rightarrow> False
      | Some r \<Rightarrow>
          isValid r \<and>
          containsPoint
            (map (transform_map (center r) (rotation_angle t) (scale_factor t)) (rect_polygon r))
            (pt_real (x, y)))"

text \<open>
  The polygon tool maps its outline; it reads \<^verbatim>\<open>self.selection_rect.center()\<close> without a
  test, which fails when there is no rectangle.
\<close>

definition polygon_is_point_in_selection ::
  "select_tool \<Rightarrow> int \<Rightarrow> int \<Rightarrow> py_error + bool"
where
  "polygon_is_point_in_selection t x y =
     (if original_points t = [] then Inr False
      else case selection_rect t of
             None \<Rightarrow> Inl AttributeError
           | Some r \<Rightarrow>
               Inr (containsPoint
                      (map (\<lambda>p. transform_map (center r) (rotation_angle t) (scale_factor t)
                                  (pt_real (fst p + r_x1 r, snd p + r_y1 r)))
                           (original_points t))
                      (pt_real (x, y))))"

definition is_point_in_selection :: "select_tool \<Rightarrow> int \<Rightarrow> int \<Rightarrow> py_error + bool" where
  "is_point_in_selection t x y =
     (if kind t = ImprovedPolygonSelectTool then polygon_is_point_in_selection t x y
      else Inr (BaseSelectTool_is_point_in_selection t x y))"

text \<open>
  \<^verbatim>\<open>_update_cursor\<close> only chooses a cursor shape; what is kept of it is the order of its
  tests, since the last one can fail.
\<close>

definition update_cursor :: "world \<Rightarrow> int \<Rightarrow> int \<Rightarrow> py_error + unit" where
  "update_cursor w x y =
     (if \<not> has_canvas (ctl w) then Inr ()
      else if hit_scale_handle (tool w) x y then Inr ()
      else if hit_rotate_handle (tool w) x y then Inr ()
      else if get_resize_handle_at (tool w) x y \<noteq> None then Inr ()
      else case is_point_in_selection (tool w) x y of Inl e \<Rightarrow> Inl e | Inr b \<Rightarrow> Inr ())"

subsection \<open>Previews\<close>

definition BaseSelectTool_update_preview :: "world \<Rightarrow> world" where
  "BaseSelectTool_update_preview w =
     (if current_image (ctl w) = None \<or> \<not> point_truthy (start_pos (tool w))
         \<or> \<not> point_truthy (end_pos (tool w))
      then w
      else w\<lparr>ctl := (ctl w)\<lparr>temp_pixmap := Some Outline_preview\<rparr>\<rparr>)"

definition polygon_update_preview :: "world \<Rightarrow> world" where
  "polygon_update_preview w =
     (if current_image (ctl w) = None then w
      else w\<lparr>ctl := (ctl w)\<lparr>temp_pixmap := Some Polygon_preview\<rparr>\<rparr>)"

definition update_preview :: "world \<Rightarrow> world" where
  "update_preview w =
     (if kind (tool w) = ImprovedPolygonSelectTool then polygon_update_preview w
      else BaseSelectTool_update_preview w)"

text \<open>
  \<^verbatim>\<open>_update_selection_preview\<close> paints the overlay; through \<^verbatim>\<open>_draw_selection_frame\<close> it
  recomputes the handles when there is a valid rectangle.
\<close>

definition BaseSelectTool_update_selection_preview :: "world \<Rightarrow> world" where
  "BaseSelectTool_update_selection_preview w =
     (if current_image (ctl w) = None \<or> \<not> is_floating (tool w) then w
      else w\<lparr>tool := (if rect_truthy (selection_rect (tool w)) then update_handles (tool w)
                       else tool w),
             ctl := (ctl w)\<lparr>temp_pixmap := Some Floating_preview\<rparr>\<rparr>)"

definition polygon_update_selection_preview :: "world \<Rightarrow> world" where
  "polygon_update_selection_preview w =
     (if current_image (ctl w) = None then w
      else if \<not> is_floating (tool w) \<and> is_creating (tool w) then polygon_update_preview w
      else BaseSelectTool_update_selection_preview w)"

definition update_selection_preview :: "world \<Rightarrow> world" where
  "update_selection_preview w =
     (if kind (tool w) = ImprovedPolygonSelectTool then polygon_update_selection_preview w
      else BaseSelectTool_update_selection_preview w)"

subsection \<open>Cancel, capture and commit\<close>

definition cancel_selection :: "world \<Rightarrow> world" where
  "cancel_selection w =
     (let t = tool w;
          poly = (kind t = ImprovedPolygonSelectTool)
      in w\<lparr>tool := t\<lparr>is_floating := False, selection_rect := None, selected_content := None,
                     selection_mask := None, scale_factor := 1, rotation_angle := 0,
                     points := (if poly then [] else points t),
                     original_points := (if poly then [] else original_points t)\<rparr>,
            ctl := status_emit Msg_selection_cancelled ((ctl w)\<lparr>temp_pixmap := None\<rparr>)\<rparr>)"

definition BaseSelectTool_cancel :: "world \<Rightarrow> world" where
  "BaseSelectTool_cancel w = cancel_selection (BaseTool_cancel w)"

definition polygon_cancel :: "world \<Rightarrow> world" where
  "polygon_cancel w =
     (if is_creating (tool w)
      then w\<lparr>tool := (tool w)\<lparr>is_creating := False, has_first_click := False, points := [],
                              original_points := []\<rparr>,
             ctl := status_emit Msg_polygon_cancelled ((ctl w)\<lparr>temp_pixmap := None\<rparr>)\<rparr>
      else BaseSelectTool_cancel w)"

definition cancel :: "world \<Rightarrow> world" where
  "cancel w =
     (if kind (tool w) = ImprovedPolygonSelectTool then polygon_cancel w
      else BaseSelectTool_cancel w)"

text \<open>\<^verbatim>\<open>_create_selection_mask\<close> of the three classes.\<close>

definition create_selection_mask :: "qt_raster \<Rightarrow> select_tool \<Rightarrow> qimage option" where
  "create_selection_mask qt t =
     (case selection_rect t of
        None \<Rightarrow> None
      | Some r \<Rightarrow>
          if \<not> isValid r then None
          else (case kind t of
                  RectSelectTool \<Rightarrow> Some (fill_rect_all (new_image (rect_size r)) white)
                | EllipseSelectTool \<Rightarrow>
                    Some (fill_shape (new_image (rect_size r)) (fill_ellipse qt (rect_size r)) white)
                | ImprovedPolygonSelectTool \<Rightarrow>
                    (if original_points t = [] then None
                     else Some (fill_shape (new_image (rect_size r))
                                  (fill_polygon qt (original_points t)) white))))"

text \<open>Python's \<^verbatim>\<open>xs[i]\<close>: a negative index counts from the end, an index out of range raises.\<close>

definition py_index :: "'a list \<Rightarrow> int \<Rightarrow> 'a option" where
  "py_index xs i =
     (if 0 \<le> i \<and> i < int (length xs) then Some (xs ! nat i)
      else if i < 0 \<and> - int (length xs) \<le> i then Some (xs ! nat (int (length xs) + i))
      else None)"

definition capture_selection :: "qt_raster \<Rightarrow> world \<Rightarrow> py_error + world" where
  "capture_selection qt w =
     (case selection_rect (tool w) of
        None \<Rightarrow> Inr w
      | Some r \<Rightarrow>
          if \<not> isValid r \<or> layers (ctl w) = [] then Inr w
          else (case py_index (layers (ctl w)) (active_layer_index (ctl w)) of
                  None \<Rightarrow> Inl IndexError
                | Some active_layer \<Rightarrow>
                    (case create_selection_mask qt (tool w) of
                       None \<Rightarrow> Inr (w\<lparr>tool := (tool w)\<lparr>selection_mask := None\<rparr>\<rparr>)
                     | Some msk \<Rightarrow>
                         Inr (w\<lparr>tool := (tool w)
                                \<lparr>selection_mask := Some msk,
                                 selected_content :=
                                   Some (draw_image_at DestinationIn (0, 0) msk
                                           (draw_sub_image (new_image (rect_size r))
                                              (layer_image active_layer) r))\<rparr>\<rparr>))))"

text \<open>
  The painter callback of \<^verbatim>\<open>_commit_selection\<close>: the mask is stamped with
  \<^verbatim>\<open>DestinationOut\<close> and the content drawn with \<^verbatim>\<open>SourceOver\<close>, both resampled to the size
  of \<^verbatim>\<open>self.selection_rect\<close> and drawn at its top left corner under the transform about its
  centre.
\<close>

definition draw_transformed_selection ::
  "qt_raster \<Rightarrow> select_tool \<Rightarrow> qrect \<Rightarrow> qimage \<Rightarrow> qimage \<Rightarrow> qimage"
where
  "draw_transformed_selection qt t r content img =
     (let tl_pos = (r_x1 r, r_y1 r);
          img1 = (case selection_mask t of
                    None \<Rightarrow> img
                  | Some msk \<Rightarrow>
                      draw_transformed qt DestinationOut (center r) (rotation_angle t)
                        (scale_factor t) tl_pos (scaled qt msk (rect_size r)) img)
      in draw_transformed qt SourceOver (center r) (rotation_angle t) (scale_factor t) tl_pos
           (scaled qt content (rect_size r)) img1)"

definition commit_selection :: "qt_raster \<Rightarrow> world \<Rightarrow> world" where
  "commit_selection qt w =
     (case selection_rect (tool w) of
        None \<Rightarrow> w
      | Some r \<Rightarrow>
          (case selected_content (tool w) of
             None \<Rightarrow> w
           | Some content \<Rightarrow>
               if \<not> is_floating (tool w) \<or> \<not> isValid r then w
               else
                 let c1 = save_to_history (ctl w);
                     c2 = draw_on_active_layer c1
                            (draw_transformed_selection qt (tool w) r content) False False False
                 in cancel_selection (w\<lparr>ctl := c2\<rparr>)))"

subsection \<open>Transform gestures\<close>

definition move_selection :: "int \<Rightarrow> int \<Rightarrow> select_tool \<Rightarrow> select_tool" where
  "move_selection dx dy t =
     (case selection_rect t of
        None \<Rightarrow> t
      | Some r \<Rightarrow> if isValid r then t\<lparr>selection_rect := Some (translate r dx dy)\<rparr> else t)"

definition resize_rect :: "handle \<Rightarrow> int \<Rightarrow> int \<Rightarrow> qrect \<Rightarrow> qrect" where
  "resize_rect h dx dy r =
     (case h of
        H_tl \<Rightarrow> setTop (setLeft r (r_x1 r + dx)) (r_y1 r + dy)
      | H_tr \<Rightarrow> setTop (setRight r (r_x2 r + dx)) (r_y1 r + dy)
      | H_bl \<Rightarrow> setBottom (setLeft r (r_x1 r + dx)) (r_y2 r + dy)
      | H_br \<Rightarrow> setBottom (setRight r (r_x2 r + dx)) (r_y2 r + dy)
      | H_t \<Rightarrow> setTop r (r_y1 r + dy)
      | H_b \<Rightarrow> setBottom r (r_y2 r + dy)
      | H_l \<Rightarrow> setLeft r (r_x1 r + dx)
      | H_r \<Rightarrow> setRight r (r_x2 r + dx))"

definition resize_selection :: "int \<Rightarrow> int \<Rightarrow> select_tool \<Rightarrow> select_tool" where
  "resize_selection dx dy t =
     (case selection_rect t of
        None \<Rightarrow> t
      | Some r \<Rightarrow>
          (case resize_handle t of
             None \<Rightarrow> t
           | Some h \<Rightarrow>
               if \<not> isValid r then t
               else
                 let r1 = normalized (resize_rect h dx dy r);
                     r2 = setWidth r1 (max 1 (rect_width r1));
                     r3 = setHeight r2 (max 1 (rect_height r2))
                 in t\<lparr>selection_rect := Some r3\<rparr>))"

definition dist_to :: "ipoint \<Rightarrow> ipoint \<Rightarrow> real" where
  "dist_to p c =
     sqrt (real_of_int ((fst p - fst c) ^ 2) + real_of_int ((snd p - snd c) ^ 2))"

definition handle_scaling :: "int \<Rightarrow> int \<Rightarrow> ipoint \<Rightarrow> world \<Rightarrow> world" where
  "handle_scaling x y last_pos w =
     (case selection_rect (tool w) of
        None \<Rightarrow> w
      | Some r \<Rightarrow>
          if \<not> isValid r then w
          else
            let c = center r;
                cur_dist = dist_to (x, y) c;
                original_dist = dist_to last_pos c
            in if original_dist > 0
               then update_selection_preview
                      (w\<lparr>tool := (tool w)
                         \<lparr>scale_factor :=
                            max (1 / 10)
                              (min (original_scale (tool w) * (cur_dist / original_dist)) 10)\<rparr>\<rparr>)
               else w)"

text \<open>
  The rotation angle is computed with Python floats, which are IEEE 754 binary64 numbers.
  \<open>fl\<close> rounds a real number to the nearest float, ties to the even significand: a number
  with binary exponent \<open>e\<close> is rounded to a multiple of \<open>2 powr (e - 52)\<close>, and below
  \<open>2 powr (- 1022)\<close> to a multiple of \<open>2 powr (- 1074)\<close>. Overflow to infinity is left out;
  no angle comes near it. Integer pixel coordinates below \<open>2 ^ 53\<close> are floats as they are.
\<close>

definition round_half_even :: "real \<Rightarrow> int" where
  "round_half_even x =
     (let n = \<lfloor>x\<rfloor>; d = x - of_int n
      in if d < 1 / 2 then n else if 1 / 2 < d then n + 1 else if even n then n else n + 1)"

definition float_exponent :: "real \<Rightarrow> int" where
  "float_exponent x = max \<lfloor>log 2 \<bar>x\<bar>\<rfloor> (- 1022)"

definition fl :: "real \<Rightarrow> real" where
  "fl x =
     (if x = 0 then 0
      else
        let u = 2 powr (of_int (float_exponent x - 52))
        in of_int (round_half_even (x / u)) * u)"

text \<open>
  \<^verbatim>\<open>math.atan2\<close> is the arc tangent of the C library, taken as correctly rounded;
  \<^verbatim>\<open>math.degrees(x)\<close> is \<^verbatim>\<open>x * (180.0 / pi)\<close> in float arithmetic.
\<close>

definition atan2_exact :: "real \<Rightarrow> real \<Rightarrow> real" where
  "atan2_exact y x =
     (if x > 0 then arctan (y / x)
      else if x < 0 then (if y \<ge> 0 then arctan (y / x) + pi else arctan (y / x) - pi)
      else if y > 0 then pi / 2
      else if y < 0 then - (pi / 2)
      else 0)"

definition atan2 :: "real \<Rightarrow> real \<Rightarrow> real" where
  "atan2 y x = fl (atan2_exact y x)"

definition rad_to_deg :: real where
  "rad_to_deg = fl (180 / fl pi)"

definition degrees :: "real \<Rightarrow> real" where
  "degrees a = fl (a * rad_to_deg)"

text \<open>
  The float remainder \<^verbatim>\<open>a % b\<close> of Python for \<open>b \<noteq> 0\<close> (the tools only take \<^verbatim>\<open>% 360\<close>):
  the exact remainder \<^verbatim>\<open>fmod(a, b)\<close> of the C library, which has the sign of \<open>a\<close>, and, when
  it is not zero and its sign differs from that of \<open>b\<close>, the float sum of it and \<open>b\<close>.
\<close>

definition c_fmod :: "real \<Rightarrow> real \<Rightarrow> real" where
  "c_fmod a b = a - b * of_int (if 0 \<le> a / b then \<lfloor>a / b\<rfloor> else \<lceil>a / b\<rceil>)"

definition py_fmod :: "real \<Rightarrow> real \<Rightarrow> real" where
  "py_fmod a b =
     (let m = c_fmod a b
      in if m \<noteq> 0 \<and> (b < 0) \<noteq> (m < 0) then fl (m + b) else m)"

definition handle_rotation :: "int \<Rightarrow> int \<Rightarrow> ipoint \<Rightarrow> world \<Rightarrow> world" where
  "handle_rotation x y last_pos w =
     (case selection_rect (tool w) of
        None \<Rightarrow> w
      | Some r \<Rightarrow>
          if \<not> isValid r then w
          else
            let c = center r;
                dx1 = real_of_int (fst last_pos - fst c);
                dy1 = real_of_int (snd last_pos - snd c);
                dx2 = real_of_int (x - fst c);
                dy2 = real_of_int (y - snd c);
                angle1 = degrees (atan2 dy1 dx1);
                angle2 = degrees (atan2 dy2 dx2);
                angle_diff = fl (angle2 - angle1)
            in update_selection_preview
                 (w\<lparr>tool := (tool w)
                    \<lparr>rotation_angle := py_fmod (fl (original_angle (tool w) + angle_diff)) 360\<rparr>\<rparr>))"

definition apply_square_constraint :: "select_tool \<Rightarrow> select_tool" where
  "apply_square_constraint t =
     (if \<not> point_truthy (start_pos t) \<or> \<not> point_truthy (end_pos t) then t
      else case (start_pos t, end_pos t) of
             (Some (sx, sy), Some (ex, ey)) \<Rightarrow>
               let dx = ex - sx; dy = ey - sy;
                   sz = max \<bar>dx\<bar> \<bar>dy\<bar>
               in t\<lparr>end_pos := Some (sx + (if dx \<ge> 0 then sz else - sz),
                                    sy + (if dy \<ge> 0 then sz else - sz))\<rparr>
           | _ \<Rightarrow> t)"

subsection \<open>Creating a selection\<close>

definition start_new_selection :: "int \<Rightarrow> int \<Rightarrow> world \<Rightarrow> world" where
  "start_new_selection x y w =
     update_preview
       (w\<lparr>tool := (tool w)\<lparr>start_pos := Some (x, y), end_pos := Some (x, y), drawing := True\<rparr>\<rparr>)"

definition BaseSelectTool_finalize_selection :: "qt_raster \<Rightarrow> world \<Rightarrow> py_error + world" where
  "BaseSelectTool_finalize_selection qt w =
     (if \<not> point_truthy (start_pos (tool w)) \<or> \<not> point_truthy (end_pos (tool w)) then Inr w
      else case (start_pos (tool w), end_pos (tool w)) of
             (Some (sx, sy), Some (ex, ey)) \<Rightarrow>
               let ax = min sx ex; ay = min sy ey; bx = max sx ex; lo_y = max sy ey
               in if bx - ax > 1 \<and> lo_y - ay > 1
                  then
                    (case capture_selection qt
                            (w\<lparr>tool := (tool w)
                               \<lparr>selection_rect := Some (QRect ax ay (bx - ax) (lo_y - ay)),
                                is_floating := True, scale_factor := 1, rotation_angle := 0\<rparr>\<rparr>) of
                       Inl e \<Rightarrow> Inl e
                     | Inr w1 \<Rightarrow>
                         Inr (emit (Msg_selection_ready (bx - ax) (lo_y - ay))
                                (update_selection_preview w1)))
                  else Inr (cancel w)
           | _ \<Rightarrow> Inr w)"

definition min_list_int :: "int list \<Rightarrow> int" where
  "min_list_int xs = fold min (tl xs) (hd xs)"

definition max_list_int :: "int list \<Rightarrow> int" where
  "max_list_int xs = fold max (tl xs) (hd xs)"

text \<open>
  The polygon tool's \<^verbatim>\<open>_finalize_selection\<close>; the minima and maxima are taken of at least
  three points.
\<close>

definition polygon_finalize_selection :: "qt_raster \<Rightarrow> world \<Rightarrow> py_error + world" where
  "polygon_finalize_selection qt w =
     (if length (points (tool w)) < 3 then Inr (cancel (emit Msg_polygon_needs_3 w))
      else
        let ps = points (tool w);
            min_x = min_list_int (map fst ps); min_y = min_list_int (map snd ps);
            max_x = max_list_int (map fst ps); max_y = max_list_int (map snd ps);
            r = QRect min_x min_y (max_x - min_x) (max_y - min_y)
        in case capture_selection qt
                  (w\<lparr>tool := (tool w)
                     \<lparr>selection_rect := Some r,
                      original_points := map (\<lambda>p. (fst p - r_x1 r, snd p - r_y1 r)) ps,
                      is_floating := True, is_creating := False, has_first_click := False,
                      scale_factor := 1, rotation_angle := 0\<rparr>\<rparr>) of
             Inl e \<Rightarrow> Inl e
           | Inr w1 \<Rightarrow> Inr (update_selection_preview w1))"

definition finalize_selection :: "qt_raster \<Rightarrow> world \<Rightarrow> py_error + world" where
  "finalize_selection qt w =
     (if kind (tool w) = ImprovedPolygonSelectTool then polygon_finalize_selection qt w
      else BaseSelectTool_finalize_selection qt w)"

subsection \<open>Pointer and keyboard handlers\<close>

definition gesture_active :: "select_tool \<Rightarrow> bool" where
  "gesture_active t = (is_moving t \<or> is_scaling t \<or> is_rotating t \<or> is_resizing t)"

definition BaseSelectTool_mouse_press ::
  "qt_raster \<Rightarrow> mouse_event \<Rightarrow> int \<Rightarrow> int \<Rightarrow> world \<Rightarrow> py_error + world"
where
  "BaseSelectTool_mouse_press qt ev x y w =
     (let t = BaseTool_mouse_press ev (tool w)
      in if is_floating t
         then
           if hit_scale_handle t x y
           then Inr (w\<lparr>tool := t\<lparr>is_scaling := True, last_mouse_pos := Some (x, y),
                                  original_scale := scale_factor t\<rparr>\<rparr>)
           else if hit_rotate_handle t x y
           then Inr (w\<lparr>tool := t\<lparr>is_rotating := True, last_mouse_pos := Some (x, y),
                                  original_angle := rotation_angle t\<rparr>\<rparr>)
           else
             let t1 = t\<lparr>resize_handle := get_resize_handle_at t x y\<rparr>
             in if resize_handle t1 \<noteq> None
                then Inr (w\<lparr>tool := t1\<lparr>is_resizing := True, last_mouse_pos := Some (x, y)\<rparr>\<rparr>)
                else (case is_point_in_selection t1 x y of
                        Inl e \<Rightarrow> Inl e
                      | Inr inside \<Rightarrow>
                          if inside
                          then Inr (w\<lparr>tool := t1\<lparr>is_moving := True,
                                                  last_mouse_pos := Some (x, y)\<rparr>\<rparr>)
                          else Inr (commit_selection qt (w\<lparr>tool := t1\<rparr>)))
         else if ev_button ev = LeftButton then Inr (start_new_selection x y (w\<lparr>tool := t\<rparr>))
         else Inr (w\<lparr>tool := t\<rparr>))"

definition polygon_mouse_press ::
  "qt_raster \<Rightarrow> mouse_event \<Rightarrow> int \<Rightarrow> int \<Rightarrow> world \<Rightarrow> py_error + world"
where
  "polygon_mouse_press qt ev x y w =
     (let t = tool w
      in if is_floating t
         then (case is_point_in_selection t x y of
                 Inl e \<Rightarrow> Inl e
               | Inr in_selection \<Rightarrow>
                   if \<not> (in_selection \<or> hit_scale_handle t x y \<or> hit_rotate_handle t x y
                         \<or> get_resize_handle_at t x y \<noteq> None)
                   then Inr (commit_selection qt w)
                   else BaseSelectTool_mouse_press qt ev x y w)
         else if ev_button ev = LeftButton
         then
           if \<not> has_first_click t
           then Inr (emit Msg_polygon_first_point
                       (update_preview
                          (w\<lparr>tool := t\<lparr>has_first_click := True, is_creating := True,
                                        points := [(x, y)]\<rparr>\<rparr>)))
           else Inr (emit (Msg_polygon_point (length (points t) + 1))
                       (update_preview
                          (w\<lparr>tool := t\<lparr>points := points t @ [(x, y)], temp_point := None\<rparr>\<rparr>)))
         else if ev_button ev = RightButton
         then
           if is_creating t \<and> length (points t) \<ge> 3 then finalize_selection qt w
           else if \<not> is_creating t then Inr (cancel w)
           else Inr w
         else Inr w)"

definition mouse_press ::
  "qt_raster \<Rightarrow> mouse_event \<Rightarrow> int \<Rightarrow> int \<Rightarrow> world \<Rightarrow> py_error + world"
where
  "mouse_press qt ev x y w =
     (if kind (tool w) = ImprovedPolygonSelectTool then polygon_mouse_press qt ev x y w
      else BaseSelectTool_mouse_press qt ev x y w)"

definition last_pos_of :: "select_tool \<Rightarrow> ipoint" where
  "last_pos_of t = (case last_mouse_pos t of None \<Rightarrow> (0, 0) | Some p \<Rightarrow> p)"

definition BaseSelectTool_mouse_move ::
  "mouse_event \<Rightarrow> int \<Rightarrow> int \<Rightarrow> world \<Rightarrow> py_error + world"
where
  "BaseSelectTool_mouse_move ev x y w =
     (let t = BaseTool_mouse_move ev (tool w);
          w0 = w\<lparr>tool := t\<rparr>
      in case (if is_floating t \<and> \<not> gesture_active t then update_cursor w0 x y else Inr ()) of
           Inl e \<Rightarrow> Inl e
         | Inr u \<Rightarrow>
             if is_moving t \<and> point_truthy (last_mouse_pos t)
             then Inr (update_selection_preview
                         (w0\<lparr>tool := (move_selection (x - fst (last_pos_of t))
                                        (y - snd (last_pos_of t)) t)
                                      \<lparr>last_mouse_pos := Some (x, y)\<rparr>\<rparr>))
             else if is_resizing t \<and> resize_handle t \<noteq> None \<and> point_truthy (last_mouse_pos t)
             then Inr (update_selection_preview
                         (w0\<lparr>tool := (resize_selection (x - fst (last_pos_of t))
                                        (y - snd (last_pos_of t)) t)
                                      \<lparr>last_mouse_pos := Some (x, y)\<rparr>\<rparr>))
             else if is_scaling t \<and> point_truthy (last_mouse_pos t)
             then Inr (handle_scaling x y (last_pos_of t) w0)
             else if is_rotating t \<and> point_truthy (last_mouse_pos t)
             then Inr (handle_rotation x y (last_pos_of t) w0)
             else if drawing t
             then Inr (update_preview
                         (w0\<lparr>tool := (if is_shift_pressed (tstate t)
                                       then apply_square_constraint (t\<lparr>end_pos := Some (x, y)\<rparr>)
                                       else t\<lparr>end_pos := Some (x, y)\<rparr>)\<rparr>))
             else Inr w0)"

definition polygon_mouse_move ::
  "mouse_event \<Rightarrow> int \<Rightarrow> int \<Rightarrow> world \<Rightarrow> py_error + world"
where
  "polygon_mouse_move ev x y w =
     (if is_floating (tool w) then BaseSelectTool_mouse_move ev x y w
      else if is_creating (tool w) \<and> has_first_click (tool w)
      then (if \<not> point_truthy (temp_point (tool w)) \<or> temp_point (tool w) \<noteq> Some (x, y)
            then Inr (update_preview (w\<lparr>tool := (tool w)\<lparr>temp_point := Some (x, y)\<rparr>\<rparr>))
            else Inr w)
      else Inr w)"

definition mouse_move :: "mouse_event \<Rightarrow> int \<Rightarrow> int \<Rightarrow> world \<Rightarrow> py_error + world" where
  "mouse_move ev x y w =
     (if kind (tool w) = ImprovedPolygonSelectTool then polygon_mouse_move ev x y w
      else BaseSelectTool_mouse_move ev x y w)"

definition BaseSelectTool_mouse_release ::
  "qt_raster \<Rightarrow> mouse_event \<Rightarrow> world \<Rightarrow> py_error + world"
where
  "BaseSelectTool_mouse_release qt ev w =
     (let t = BaseTool_mouse_release ev (tool w)
      in if gesture_active t
         then Inr (update_selection_preview
                     (w\<lparr>tool := t\<lparr>is_moving := False, is_scaling := False, is_rotating := False,
                                   is_resizing := False, resize_handle := None,
                                   last_mouse_pos := None\<rparr>\<rparr>))
         else if drawing t then finalize_selection qt (w\<lparr>tool := t\<lparr>drawing := False\<rparr>\<rparr>)
         else Inr (w\<lparr>tool := t\<rparr>))"

definition polygon_mouse_release ::
  "qt_raster \<Rightarrow> mouse_event \<Rightarrow> world \<Rightarrow> py_error + world"
where
  "polygon_mouse_release qt ev w =
     (if \<not> is_floating (tool w) then Inr w else BaseSelectTool_mouse_release qt ev w)"

definition mouse_release :: "qt_raster \<Rightarrow> mouse_event \<Rightarrow> world \<Rightarrow> py_error + world" where
  "mouse_release qt ev w =
     (if kind (tool w) = ImprovedPolygonSelectTool then polygon_mouse_release qt ev w
      else BaseSelectTool_mouse_release qt ev w)"

definition non_operation_keys :: "key list" where
  "non_operation_keys =
     [Key_Shift, Key_Control, Key_Alt, Key_Meta, Key_CapsLock, Key_NumLock, Key_ScrollLock,
      Key_Left, Key_Right, Key_Up, Key_Down, Key_PageUp, Key_PageDown, Key_Home, Key_End]"

text \<open>A key handler returns the new state and its Boolean result (the key was handled).\<close>

definition BaseSelectTool_key_press :: "qt_raster \<Rightarrow> key \<Rightarrow> world \<Rightarrow> world \<times> bool" where
  "BaseSelectTool_key_press qt k w =
     (if k = Key_Escape then (cancel w, True)
      else if k \<in> {Key_Enter, Key_Return}
      then (if is_floating (tool w) then commit_selection qt w else w, True)
      else if is_floating (tool w) \<and> destroy_on_other_action (tool w)
              \<and> k \<notin> set non_operation_keys \<and> k \<notin> {Key_Escape, Key_Enter, Key_Return}
      then (cancel_selection w, False)
      else (w, False))"

definition polygon_key_press ::
  "qt_raster \<Rightarrow> key \<Rightarrow> world \<Rightarrow> py_error + world \<times> bool"
where
  "polygon_key_press qt k w =
     (if k = Key_Escape
      then (if is_creating (tool w) then Inr (cancel w, True)
            else Inr (BaseSelectTool_key_press qt k w))
      else if k \<in> {Key_Enter, Key_Return} \<and> is_floating (tool w)
      then Inr (commit_selection qt w, True)
      else if k \<in> {Key_Enter, Key_Return} \<and> is_creating (tool w)
              \<and> length (points (tool w)) \<ge> 3
      then (case finalize_selection qt w of Inl e \<Rightarrow> Inl e | Inr w1 \<Rightarrow> Inr (w1, True))
      else if k \<in> {Key_Enter, Key_Return} \<and> is_creating (tool w)
              \<and> length (points (tool w)) < 3
      then Inr (emit Msg_polygon_needs_3_to_finish w, True)
      else Inr (BaseSelectTool_key_press qt k w))"

definition key_press :: "qt_raster \<Rightarrow> key \<Rightarrow> world \<Rightarrow> py_error + world \<times> bool" where
  "key_press qt k w =
     (if kind (tool w) = ImprovedPolygonSelectTool then polygon_key_press qt k w
      else Inr (BaseSelectTool_key_press qt k w))"

subsection \<open>Notifications from the controller\<close>

definition BaseSelectTool_on_tool_changed :: "world \<Rightarrow> world" where
  "BaseSelectTool_on_tool_changed w =
     (if is_floating (tool w) \<and> destroy_on_other_action (tool w) then cancel_selection w else w)"

definition polygon_on_tool_changed :: "world \<Rightarrow> world" where
  "polygon_on_tool_changed w =
     (if is_creating (tool w) then cancel w
      else if is_floating (tool w) \<and> destroy_on_other_action (tool w) then cancel_selection w
      else w)"

text \<open>
  \<^verbatim>\<open>on_tool_changed\<close>, \<^verbatim>\<open>on_other_operation\<close>, \<^verbatim>\<open>on_menu_action\<close> and
  \<^verbatim>\<open>on_toolbar_button_click\<close> have the same body in the base class, and the polygon tool's
  overrides all do what its \<^verbatim>\<open>on_tool_changed\<close> does.
\<close>

definition on_tool_changed :: "world \<Rightarrow> world" where
  "on_tool_changed w =
     (if kind (tool w) = ImprovedPolygonSelectTool then polygon_on_tool_changed w
      else BaseSelectTool_on_tool_changed w)"

definition on_other_operation :: "world \<Rightarrow> world" where
  "on_other_operation w = on_tool_changed w"

definition on_menu_action :: "world \<Rightarrow> world" where
  "on_menu_action w = on_tool_changed w"

definition on_toolbar_button_click :: "world \<Rightarrow> world" where
  "on_toolbar_button_click w = on_tool_changed w"

subsection \<open>The event loop\<close>

text \<open>
  The controller hands each canvas event to the active tool
  (\<^verbatim>\<open>on_canvas_mouse_press\<close>, \<^verbatim>\<open>on_canvas_mouse_move\<close>, \<^verbatim>\<open>on_canvas_mouse_release\<close>,
  \<^verbatim>\<open>on_key_press\<close>); after a release it clears \<^verbatim>\<open>_current_operation_saved\<close>. The
  extra test of \<^verbatim>\<open>on_canvas_mouse_press\<close> for a selection tool never applies, since no
  tool has the attribute \<^verbatim>\<open>is_active\<close> it asks for. An exception raised by a handler ends
  the run.
\<close>

datatype event =
    Mouse_press mouse_event int int
  | Mouse_move mouse_event int int
  | Mouse_release mouse_event int int
  | Key_press key
  | Tool_changed
  | Other_operation
  | Menu_action
  | Toolbar_button_click

definition step :: "qt_raster \<Rightarrow> event \<Rightarrow> world \<Rightarrow> py_error + world" where
  "step qt e w =
     (case e of
        Mouse_press ev x y \<Rightarrow> mouse_press qt ev x y w
      | Mouse_move ev x y \<Rightarrow> mouse_move ev x y w
      | Mouse_release ev x y \<Rightarrow>
          (case mouse_release qt ev w of
             Inl err \<Rightarrow> Inl err
           | Inr w1 \<Rightarrow> Inr (w1\<lparr>ctl := (ctl w1)\<lparr>current_operation_saved := False\<rparr>\<rparr>))
      | Key_press k \<Rightarrow>
          (case key_press qt k w of Inl err \<Rightarrow> Inl err | Inr (w1, handled) \<Rightarrow> Inr w1)
      | Tool_changed \<Rightarrow> Inr (on_tool_changed w)
      | Other_operation \<Rightarrow> Inr (on_other_operation w)
      | Menu_action \<Rightarrow> Inr (on_menu_action w)
      | Toolbar_button_click \<Rightarrow> Inr (on_toolbar_button_click w))"

fun run :: "qt_raster \<Rightarrow> event list \<Rightarrow> world \<Rightarrow> py_error + world" where
  "run qt [] w = Inr w"
| "run qt (e # es) w = (case step qt e w of Inl err \<Rightarrow> Inl err | Inr w1 \<Rightarrow> run qt es w1)"

section \<open>Notions used by the properties\<close>

text \<open>
  Two states hold the same document when the layers, the undo stack and the redo stack are
  the same.
\<close>

definition same_document :: "world \<Rightarrow> world \<Rightarrow> bool" where
  "same_document w w' =
     (layers (ctl w') = layers (ctl w) \<and> undo_stack (ctl w') = undo_stack (ctl w)
      \<and> redo_stack (ctl w') = redo_stack (ctl w))"

text \<open>
  An event asks for a commit when a selection is floating and either Enter or Return is
  pressed, or the pointer goes down outside every handle and outside the selected region.
\<close>

definition commits :: "event \<Rightarrow> world \<Rightarrow> bool" where
  "commits e w =
     (is_floating (tool w) \<and>
      (case e of
         Key_press k \<Rightarrow> k \<in> {Key_Enter, Key_Return}
       | Mouse_press ev x y \<Rightarrow>
           \<not> hit_scale_handle (tool w) x y \<and> \<not> hit_rotate_handle (tool w) x y
           \<and> get_resize_handle_at (tool w) x y = None
           \<and> is_point_in_selection (tool w) x y = Inr False
       | _ \<Rightarrow> False))"

text \<open>A run in which no event asks for a commit.\<close>

fun quiet :: "qt_raster \<Rightarrow> event list \<Rightarrow> world \<Rightarrow> bool" where
  "quiet qt [] w = True"
| "quiet qt (e # es) w =
     (\<not> commits e w \<and> (case step qt e w of Inl err \<Rightarrow> True | Inr w1 \<Rightarrow> quiet qt es w1))"

text \<open>
  The events that reach \<^verbatim>\<open>cancel\<close> or \<^verbatim>\<open>_cancel_selection\<close>: Escape, a key outside
  the non-operation keys while auto-destroy is on, and the notifications of the controller.
\<close>

definition cancels :: "event \<Rightarrow> world \<Rightarrow> bool" where
  "cancels e w =
     (case e of
        Key_press k \<Rightarrow>
          k = Key_Escape
          \<or> (destroy_on_other_action (tool w) \<and> k \<notin> set non_operation_keys
              \<and> k \<notin> {Key_Enter, Key_Return})
      | Tool_changed \<Rightarrow> True
      | Other_operation \<Rightarrow> True
      | Menu_action \<Rightarrow> True
      | Toolbar_button_click \<Rightarrow> True
      | _ \<Rightarrow> False)"


section \<open>A concrete document\<close>

text \<open>
  The scenario of the specification: one unlocked layer of 100 by 100 opaque red pixels, the
  rectangle selection tool, and a rasteriser whose resampling is never needed (no scaling,
  no rotation).
\<close>

definition qt_example :: qt_raster where
  "qt_example =
     \<lparr>smooth_scale = (\<lambda>img sz x y. transparent),
      warp = (\<lambda>c a s p img x y. transparent),
      fill_ellipse = (\<lambda>sz x y. True),
      fill_polygon = (\<lambda>ps x y. True)\<rparr>"

definition opaque_red :: rgba where
  "opaque_red = \<lparr>red = 255, green = 0, blue = 0, alpha = 255\<rparr>"

definition red_image :: qimage where
  "red_image =
     \<lparr>img_w = 100, img_h = 100,
      img_pix = (\<lambda>x y. if 0 \<le> x \<and> x < 100 \<and> 0 \<le> y \<and> y < 100 then opaque_red
                        else transparent)\<rparr>"

definition red_layer :: layer where
  "red_layer =
     \<lparr>layer_name = ''background'', layer_image = red_image, visible = True, opacity = 100,
      locked = False\<rparr>"

definition no_adjustments :: adjustments where
  "no_adjustments =
     \<lparr>original_images = [], adjustment_values = [], current_adjustment_type = None\<rparr>"

definition red_controller :: controller where
  "red_controller =
     \<lparr>current_image = Some red_image, is_modified = False, layers = [red_layer],
      active_layer_index = 0, temp_pixmap = None, has_canvas = True, undo_stack = [],
      redo_stack = [], is_recording = True, pending_update = False, adjust = no_adjustments,
      current_operation_saved = False, status_log = []\<rparr>"

definition red_world :: world where
  "red_world = \<lparr>tool = new_tool RectSelectTool, ctl = red_controller\<rparr>"

definition left_button :: mouse_event where
  "left_button =
     \<lparr>ev_button = LeftButton, ev_left_down = True, ev_right_down = False, ev_ctrl = False,
      ev_shift = False\<rparr>"

definition right_button :: mouse_event where
  "right_button =
     \<lparr>ev_button = RightButton, ev_left_down = False, ev_right_down = True, ev_ctrl = False,
      ev_shift = False\<rparr>"

text \<open>Dragging the rectangle (20,20)-(60,60), then dragging its inside by (+30, +10).\<close>

definition select_events :: "event list" where
  "select_events =
     [Mouse_press left_button 20 20, Mouse_move left_button 60 60,
      Mouse_release left_button 60 60]"

definition move_events :: "event list" where
  "move_events =
     [Mouse_press left_button 40 40, Mouse_move left_button 70 50,
      Mouse_release left_button 70 50]"

text \<open>The state a run of events leaves, when no handler raises.\<close>

definition world_after :: "world \<Rightarrow> event list \<Rightarrow> world" where
  "world_after w es = (case run qt_example es w of Inl err \<Rightarrow> w | Inr w1 \<Rightarrow> w1)"

text \<open>
  The keys that the specification says do not cancel a floating selection: Shift, Ctrl, Alt,
  Meta, the arrow keys, Home, End, PageUp, PageDown, Escape and Enter (Return included).
\<close>

definition spec_kept_keys :: "key list" where
  "spec_kept_keys =
     [Key_Shift, Key_Control, Key_Alt, Key_Meta, Key_Left, Key_Right, Key_Up, Key_Down,
      Key_Home, Key_End, Key_PageUp, Key_PageDown, Key_Escape, Key_Enter, Key_Return]"

text \<open>The polygon tool on the red document, and two placed vertices.\<close>

definition polygon_world :: world where
  "polygon_world = \<lparr>tool = new_tool ImprovedPolygonSelectTool, ctl = red_controller\<rparr>"

definition two_clicks :: "event list" where
  "two_clicks = [Mouse_press left_button 10 10, Mouse_press left_button 30 10]"

text \<open>A drag from (10,10) to (10,11): an outline one pixel high and no pixel wide.\<close>

definition tiny_drag :: "event list" where
  "tiny_drag = [Mouse_press left_button 10 10, Mouse_move left_button 10 11]"

text \<open>The red document with its layer locked and one entry on the redo stack.\<close>

definition old_snapshot :: snapshot where
  "old_snapshot =
     \<lparr>snap_layers = [red_layer], snap_active = 0, snap_adjustments = no_adjustments\<rparr>"

definition locked_world :: world where
  "locked_world =
     \<lparr>tool = new_tool RectSelectTool,
      ctl = red_controller\<lparr>layers := [red_layer\<lparr>locked := True\<rparr>],
                           redo_stack := [old_snapshot]\<rparr>\<rparr>"










definition floating_empty :: "world \<Rightarrow> bool" where
  "floating_empty w =
     (is_floating (tool w) \<and> selected_content (tool w) = None \<and> \<not> drawing (tool w))"


section \<open>Frame lemmas\<close>

text \<open>Recomputing the handles writes the five handle fields and nothing else.\<close>

lemma update_resize_handles_shape:
  "\<exists>e. update_resize_handles t = t\<lparr>resize_handles := e\<rparr>"
proof (cases "\<exists>a b c d. transformed_corners t = [a, b, c, d]")
  case True
  then show ?thesis by (auto simp: update_resize_handles_def)
next
  case False
  then have "update_resize_handles t = t"
    by (auto simp: update_resize_handles_def split: list.splits)
  then have "update_resize_handles t = t\<lparr>resize_handles := resize_handles t\<rparr>" by simp
  then show ?thesis by blast
qed

lemma update_handles_shape:
  "\<exists>a b c d e. update_handles t =
     t\<lparr>transformed_corners := a, scale_handle_rect := b, rotate_handle_rect := c,
       rotate_handle_pos := d, resize_handles := e\<rparr>"
proof (cases "\<exists>r. selection_rect t = Some r \<and> isValid r")
  case True
  then obtain r where r: "selection_rect t = Some r" "isValid r" by blast
  let ?c = "center r"
  let ?tc = "map (transform_map ?c (rotation_angle t) (scale_factor t))
               [corner (r_x1 r) (r_y1 r), corner (r_x2 r) (r_y1 r),
                corner (r_x1 r) (r_y2 r), corner (r_x2 r) (r_y2 r)]"
  let ?rot = "rotate_handle_point ?c (scale_factor t) (?tc ! 1)"
  let ?u = "t\<lparr>transformed_corners := ?tc,
               scale_handle_rect := Some (handle_rect (?tc ! 3) hot_size),
               rotate_handle_rect := Some (handle_rect ?rot hot_size),
               rotate_handle_pos := Some ?rot\<rparr>"
  have "update_handles t = update_resize_handles ?u"
    using r by (simp add: update_handles_def Let_def)
  moreover obtain e where "update_resize_handles ?u = ?u\<lparr>resize_handles := e\<rparr>"
    using update_resize_handles_shape by blast
  ultimately show ?thesis by metis
next
  case False
  then have "update_handles t = t"
    by (auto simp: update_handles_def split: option.splits)
  then have "update_handles t = t\<lparr>transformed_corners := transformed_corners t,
       scale_handle_rect := scale_handle_rect t, rotate_handle_rect := rotate_handle_rect t,
       rotate_handle_pos := rotate_handle_pos t, resize_handles := resize_handles t\<rparr>"
    by simp
  then show ?thesis by blast
qed

lemma update_handles_fields [simp]:
  "kind (update_handles t) = kind t"
  "start_pos (update_handles t) = start_pos t"
  "end_pos (update_handles t) = end_pos t"
  "drawing (update_handles t) = drawing t"
  "draw_batch_started (update_handles t) = draw_batch_started t"
  "tstate (update_handles t) = tstate t"
  "selection_rect (update_handles t) = selection_rect t"
  "is_floating (update_handles t) = is_floating t"
  "selected_content (update_handles t) = selected_content t"
  "selection_mask (update_handles t) = selection_mask t"
  "is_moving (update_handles t) = is_moving t"
  "is_scaling (update_handles t) = is_scaling t"
  "is_rotating (update_handles t) = is_rotating t"
  "is_resizing (update_handles t) = is_resizing t"
  "resize_handle (update_handles t) = resize_handle t"
  "last_mouse_pos (update_handles t) = last_mouse_pos t"
  "original_scale (update_handles t) = original_scale t"
  "original_angle (update_handles t) = original_angle t"
  "scale_factor (update_handles t) = scale_factor t"
  "rotation_angle (update_handles t) = rotation_angle t"
  "destroy_on_other_action (update_handles t) = destroy_on_other_action t"
  "points (update_handles t) = points t"
  "original_points (update_handles t) = original_points t"
  "temp_point (update_handles t) = temp_point t"
  "is_creating (update_handles t) = is_creating t"
  "has_first_click (update_handles t) = has_first_click t"
  using update_handles_shape [of t] by auto


text \<open>The previews write the overlay and, through the handles, the handle fields.\<close>

lemma update_preview_tool [simp]: "tool (update_preview w) = tool w"
  by (simp add: update_preview_def polygon_update_preview_def BaseSelectTool_update_preview_def)

lemma update_preview_ctl [simp]:
  "current_image (ctl (update_preview w)) = current_image (ctl w)"
  "is_modified (ctl (update_preview w)) = is_modified (ctl w)"
  "layers (ctl (update_preview w)) = layers (ctl w)"
  "active_layer_index (ctl (update_preview w)) = active_layer_index (ctl w)"
  "has_canvas (ctl (update_preview w)) = has_canvas (ctl w)"
  "undo_stack (ctl (update_preview w)) = undo_stack (ctl w)"
  "redo_stack (ctl (update_preview w)) = redo_stack (ctl w)"
  "is_recording (ctl (update_preview w)) = is_recording (ctl w)"
  "pending_update (ctl (update_preview w)) = pending_update (ctl w)"
  "adjust (ctl (update_preview w)) = adjust (ctl w)"
  "current_operation_saved (ctl (update_preview w)) = current_operation_saved (ctl w)"
  "status_log (ctl (update_preview w)) = status_log (ctl w)"
  by (simp_all add: update_preview_def polygon_update_preview_def BaseSelectTool_update_preview_def)

lemma update_selection_preview_ctl [simp]:
  "current_image (ctl (update_selection_preview w)) = current_image (ctl w)"
  "is_modified (ctl (update_selection_preview w)) = is_modified (ctl w)"
  "layers (ctl (update_selection_preview w)) = layers (ctl w)"
  "active_layer_index (ctl (update_selection_preview w)) = active_layer_index (ctl w)"
  "has_canvas (ctl (update_selection_preview w)) = has_canvas (ctl w)"
  "undo_stack (ctl (update_selection_preview w)) = undo_stack (ctl w)"
  "redo_stack (ctl (update_selection_preview w)) = redo_stack (ctl w)"
  "is_recording (ctl (update_selection_preview w)) = is_recording (ctl w)"
  "pending_update (ctl (update_selection_preview w)) = pending_update (ctl w)"
  "adjust (ctl (update_selection_preview w)) = adjust (ctl w)"
  "current_operation_saved (ctl (update_selection_preview w)) = current_operation_saved (ctl w)"
  "status_log (ctl (update_selection_preview w)) = status_log (ctl w)"
  by (simp_all add: update_selection_preview_def polygon_update_selection_preview_def
      BaseSelectTool_update_selection_preview_def polygon_update_preview_def)

lemma update_selection_preview_tool [simp]:
  "kind (tool (update_selection_preview w)) = kind (tool w)"
  "start_pos (tool (update_selection_preview w)) = start_pos (tool w)"
  "end_pos (tool (update_selection_preview w)) = end_pos (tool w)"
  "drawing (tool (update_selection_preview w)) = drawing (tool w)"
  "draw_batch_started (tool (update_selection_preview w)) = draw_batch_started (tool w)"
  "tstate (tool (update_selection_preview w)) = tstate (tool w)"
  "selection_rect (tool (update_selection_preview w)) = selection_rect (tool w)"
  "is_floating (tool (update_selection_preview w)) = is_floating (tool w)"
  "selected_content (tool (update_selection_preview w)) = selected_content (tool w)"
  "selection_mask (tool (update_selection_preview w)) = selection_mask (tool w)"
  "is_moving (tool (update_selection_preview w)) = is_moving (tool w)"
  "is_scaling (tool (update_selection_preview w)) = is_scaling (tool w)"
  "is_rotating (tool (update_selection_preview w)) = is_rotating (tool w)"
  "is_resizing (tool (update_selection_preview w)) = is_resizing (tool w)"
  "resize_handle (tool (update_selection_preview w)) = resize_handle (tool w)"
  "last_mouse_pos (tool (update_selection_preview w)) = last_mouse_pos (tool w)"
  "original_scale (tool (update_selection_preview w)) = original_scale (tool w)"
  "original_angle (tool (update_selection_preview w)) = original_angle (tool w)"
  "scale_factor (tool (update_selection_preview w)) = scale_factor (tool w)"
  "rotation_angle (tool (update_selection_preview w)) = rotation_angle (tool w)"
  "destroy_on_other_action (tool (update_selection_preview w)) = destroy_on_other_action (tool w)"
  "points (tool (update_selection_preview w)) = points (tool w)"
  "original_points (tool (update_selection_preview w)) = original_points (tool w)"
  "temp_point (tool (update_selection_preview w)) = temp_point (tool w)"
  "is_creating (tool (update_selection_preview w)) = is_creating (tool w)"
  "has_first_click (tool (update_selection_preview w)) = has_first_click (tool w)"
  by (simp_all add: update_selection_preview_def polygon_update_selection_preview_def
      BaseSelectTool_update_selection_preview_def polygon_update_preview_def)

lemma same_document_refl [simp]: "same_document w w"
  by (simp add: same_document_def)

lemma same_document_trans: "same_document a b \<Longrightarrow> same_document b c \<Longrightarrow> same_document a c"
  by (simp add: same_document_def)

lemma same_document_tool [simp]: "same_document w (w'\<lparr>tool := t\<rparr>) = same_document w w'"
  by (simp add: same_document_def)

lemma same_document_left_tool [simp]: "same_document (w\<lparr>tool := t\<rparr>) w' = same_document w w'"
  by (simp add: same_document_def)

lemma same_document_update_preview [simp]: "same_document w (update_preview w')  = same_document w w'"
  by (simp add: same_document_def)

lemma same_document_update_selection_preview [simp]:
  "same_document w (update_selection_preview w') = same_document w w'"
  by (simp add: same_document_def)

lemma same_document_emit [simp]: "same_document w (emit m w') = same_document w w'"
  by (simp add: same_document_def emit_def status_emit_def)

lemma same_document_cancel_selection [simp]:
  "same_document w (cancel_selection w') = same_document w w'"
  by (simp add: same_document_def cancel_selection_def status_emit_def Let_def)

lemma same_document_BaseTool_cancel [simp]:
  "same_document w (BaseTool_cancel w') = same_document w w'"
  by (simp add: same_document_def BaseTool_cancel_def status_emit_def)

lemma same_document_cancel [simp]: "same_document w (cancel w') = same_document w w'"
  by (simp add: cancel_def polygon_cancel_def BaseSelectTool_cancel_def)
     (simp add: same_document_def status_emit_def)

lemma same_document_handle_scaling [simp]:
  "same_document w (handle_scaling x y p w') = same_document w w'"
  by (simp add: handle_scaling_def Let_def split: option.splits)

lemma same_document_handle_rotation [simp]:
  "same_document w (handle_rotation x y p w') = same_document w w'"
  by (simp add: handle_rotation_def Let_def split: option.splits)

lemma capture_selection_ctl: "capture_selection qt w = Inr w' \<Longrightarrow> ctl w' = ctl w"
  by (auto simp: capture_selection_def split: option.splits if_splits)

lemma same_document_capture:
  "capture_selection qt w = Inr w' \<Longrightarrow> same_document w0 w' = same_document w0 w"
  by (simp add: same_document_def capture_selection_ctl)

lemma same_document_finalize:
  assumes "finalize_selection qt w = Inr w'"
  shows "same_document w w'"
proof (cases "kind (tool w) = ImprovedPolygonSelectTool")
  case True
  with assms have p: "polygon_finalize_selection qt w = Inr w'"
    by (simp add: finalize_selection_def)
  show ?thesis
  proof (cases "length (points (tool w)) < 3")
    case True
    with p show ?thesis by (auto simp: polygon_finalize_selection_def)
  next
    case False
    with p show ?thesis
      by (auto simp: polygon_finalize_selection_def Let_def same_document_capture
               split: sum.splits)
  qed
next
  case False
  with assms have b: "BaseSelectTool_finalize_selection qt w = Inr w'"
    by (simp add: finalize_selection_def)
  then show ?thesis
    by (auto simp: BaseSelectTool_finalize_selection_def Let_def same_document_capture
             split: if_splits option.splits sum.splits prod.splits)
qed

text \<open>The pointer-move and pointer-release handlers never touch the document.\<close>

lemma same_document_mouse_move:
  assumes "mouse_move ev x y w = Inr w'"
  shows "same_document w w'"
proof -
  have base: "BaseSelectTool_mouse_move ev x y w = Inr w' \<Longrightarrow> same_document w w'"
    by (auto simp: BaseSelectTool_mouse_move_def Let_def split: if_splits sum.splits)
  from assms show ?thesis
    by (auto simp: mouse_move_def polygon_mouse_move_def base split: if_splits)
qed

lemma same_document_mouse_release:
  assumes "mouse_release qt ev w = Inr w'"
  shows "same_document w w'"
proof -
  have base: "BaseSelectTool_mouse_release qt ev w = Inr w' \<Longrightarrow> same_document w w'"
    using same_document_finalize [of qt "w\<lparr>tool := (BaseTool_mouse_release ev (tool w))\<lparr>drawing := False\<rparr>\<rparr>" w']
    by (auto simp: BaseSelectTool_mouse_release_def Let_def split: if_splits)
  from assms show ?thesis
    by (auto simp: mouse_release_def polygon_mouse_release_def base split: if_splits)
qed

lemma same_document_on_tool_changed [simp]: "same_document w (on_tool_changed w)"
  by (simp add: on_tool_changed_def polygon_on_tool_changed_def BaseSelectTool_on_tool_changed_def)

text \<open>The hit tests do not depend on the bookkeeping of \<^verbatim>\<open>BaseTool.mouse_press\<close>.\<close>

lemma hit_tests_BaseTool_mouse_press [simp]:
  "hit_scale_handle (BaseTool_mouse_press ev t) x y = hit_scale_handle t x y"
  "hit_rotate_handle (BaseTool_mouse_press ev t) x y = hit_rotate_handle t x y"
  "get_resize_handle_at (BaseTool_mouse_press ev t) x y = get_resize_handle_at t x y"
  "is_point_in_selection (BaseTool_mouse_press ev t) x y = is_point_in_selection t x y"
  "is_floating (BaseTool_mouse_press ev t) = is_floating t"
  "kind (BaseTool_mouse_press ev t) = kind t"
  by (simp_all add: BaseTool_mouse_press_def hit_scale_handle_def hit_rotate_handle_def
        get_resize_handle_at_def is_point_in_selection_def polygon_is_point_in_selection_def
        BaseSelectTool_is_point_in_selection_def Let_def split: option.splits)

lemma BaseTool_mouse_press_fields [simp]:
  "is_moving (BaseTool_mouse_press ev t) = is_moving t"
  "is_scaling (BaseTool_mouse_press ev t) = is_scaling t"
  "is_rotating (BaseTool_mouse_press ev t) = is_rotating t"
  "is_resizing (BaseTool_mouse_press ev t) = is_resizing t"
  "drawing (BaseTool_mouse_press ev t) = drawing t"
  "scale_factor (BaseTool_mouse_press ev t) = scale_factor t"
  "rotation_angle (BaseTool_mouse_press ev t) = rotation_angle t"
  "selection_rect (BaseTool_mouse_press ev t) = selection_rect t"
  "selected_content (BaseTool_mouse_press ev t) = selected_content t"
  "selection_mask (BaseTool_mouse_press ev t) = selection_mask t"
  by (simp_all add: BaseTool_mouse_press_def Let_def)

lemma is_point_in_selection_resize_handle [simp]:
  "is_point_in_selection (t\<lparr>resize_handle := h\<rparr>) x y = is_point_in_selection t x y"
  by (simp add: is_point_in_selection_def polygon_is_point_in_selection_def
        BaseSelectTool_is_point_in_selection_def split: option.splits)

lemma same_document_BaseSelectTool_mouse_press:
  assumes "BaseSelectTool_mouse_press qt ev x y w = Inr w'"
    and "\<not> commits (Mouse_press ev x y) w"
  shows "same_document w w'"
  using assms
  by (auto simp: BaseSelectTool_mouse_press_def commits_def Let_def start_new_selection_def
           split: if_splits sum.splits)

lemma same_document_mouse_press:
  assumes "mouse_press qt ev x y w = Inr w'"
    and "\<not> commits (Mouse_press ev x y) w"
  shows "same_document w w'"
proof (cases "kind (tool w) = ImprovedPolygonSelectTool")
  case False
  with assms show ?thesis
    by (simp add: mouse_press_def same_document_BaseSelectTool_mouse_press)
next
  case True
  with assms(1) have p: "polygon_mouse_press qt ev x y w = Inr w'"
    by (simp add: mouse_press_def)
  show ?thesis
  proof (cases "is_floating (tool w)")
    case True
    with p assms(2) show ?thesis
      by (auto simp: polygon_mouse_press_def Let_def commits_def
                     same_document_BaseSelectTool_mouse_press
               split: sum.splits if_splits)
  next
    case False
    with p show ?thesis
      by (auto simp: polygon_mouse_press_def Let_def same_document_finalize
               split: if_splits)
  qed
qed

lemma same_document_key_press:
  assumes "key_press qt k w = Inr (w', handled)"
    and "\<not> commits (Key_press k) w"
  shows "same_document w w'"
proof -
  have base: "BaseSelectTool_key_press qt k w = (w', handled) \<Longrightarrow> same_document w w'"
    using assms(2)
    by (auto simp: BaseSelectTool_key_press_def commits_def split: if_splits)
  show ?thesis
  proof (cases "kind (tool w) = ImprovedPolygonSelectTool")
    case False
    with assms(1) base show ?thesis by (simp add: key_press_def)
  next
    case True
    with assms(1) have "polygon_key_press qt k w = Inr (w', handled)"
      by (simp add: key_press_def)
    then show ?thesis
      using base assms(2)
      by (auto simp: polygon_key_press_def commits_def same_document_finalize
               split: if_splits sum.splits)
  qed
qed

text \<open>Only an event that asks for a commit can change the document.\<close>

lemma same_document_step:
  assumes "step qt e w = Inr w'" and "\<not> commits e w"
  shows "same_document w w'"
proof (cases e)
  case (Mouse_press ev x y)
  with assms show ?thesis by (simp add: step_def same_document_mouse_press)
next
  case (Mouse_move ev x y)
  with assms show ?thesis by (simp add: step_def same_document_mouse_move)
next
  case (Mouse_release ev x y)
  with assms(1) obtain w1 where "mouse_release qt ev w = Inr w1"
    and "w' = w1\<lparr>ctl := (ctl w1)\<lparr>current_operation_saved := False\<rparr>\<rparr>"
    by (auto simp: step_def split: sum.splits)
  then show ?thesis
    using same_document_mouse_release [of qt ev w w1] by (simp add: same_document_def)
next
  case (Key_press k)
  with assms(1) obtain handled where "key_press qt k w = Inr (w', handled)"
    by (auto simp: step_def split: sum.splits)
  with assms(2) Key_press show ?thesis by (simp add: same_document_key_press)
next
  case Tool_changed
  with assms show ?thesis by (auto simp: step_def)
next
  case Other_operation
  with assms show ?thesis by (auto simp: step_def on_other_operation_def)
next
  case Menu_action
  with assms show ?thesis by (auto simp: step_def on_menu_action_def)
next
  case Toolbar_button_click
  with assms show ?thesis by (auto simp: step_def on_toolbar_button_click_def)
qed

lemma same_document_quiet_run:
  "quiet qt es w \<Longrightarrow> run qt es w = Inr w' \<Longrightarrow> same_document w w'"
proof (induction es arbitrary: w)
  case Nil
  then show ?case by simp
next
  case (Cons e es)
  from Cons.prems(2) obtain w1 where s: "step qt e w = Inr w1" and r: "run qt es w1 = Inr w'"
    by (auto split: sum.splits)
  from Cons.prems(1) s have nc: "\<not> commits e w" and q: "quiet qt es w1" by auto
  from s nc have "same_document w w1" by (rule same_document_step)
  moreover from q r have "same_document w1 w'" by (rule Cons.IH)
  ultimately show ?case by (rule same_document_trans)
qed

lemma cancels_total:
  assumes "cancels c w"
  shows "\<exists>w2. step qt c w = Inr w2"
proof (cases c)
  case (Key_press k)
  with assms have "k \<notin> {Key_Enter, Key_Return}"
    by (auto simp: cancels_def)
  then have "\<exists>r. key_press qt k w = Inr r"
    by (auto simp: key_press_def polygon_key_press_def)
  with Key_press show ?thesis by (auto simp: step_def split: prod.splits)
qed (use assms in \<open>auto simp: cancels_def step_def\<close>)

lemma cancels_not_commits: "cancels c w \<Longrightarrow> \<not> commits c w"
  by (auto simp: cancels_def commits_def split: event.splits)

lemma escape_ends_floating:
  assumes "step qt (Key_press Key_Escape) w = Inr w2" and "\<not> is_creating (tool w)"
  shows "\<not> is_floating (tool w2) \<and> selection_rect (tool w2) = None
         \<and> selected_content (tool w2) = None \<and> selection_mask (tool w2) = None"
  using assms
  by (auto simp: step_def key_press_def polygon_key_press_def BaseSelectTool_key_press_def
        cancel_def polygon_cancel_def BaseSelectTool_cancel_def cancel_selection_def Let_def
        split: if_splits)

text \<open>The fields that the gesture handlers leave alone.\<close>

lemma move_selection_fields [simp]:
  "selection_mask (move_selection dx dy t) = selection_mask t"
  "selected_content (move_selection dx dy t) = selected_content t"
  "is_floating (move_selection dx dy t) = is_floating t"
  "drawing (move_selection dx dy t) = drawing t"
  "kind (move_selection dx dy t) = kind t"
  by (simp_all add: move_selection_def split: option.splits)

lemma resize_selection_fields [simp]:
  "selection_mask (resize_selection dx dy t) = selection_mask t"
  "selected_content (resize_selection dx dy t) = selected_content t"
  "is_floating (resize_selection dx dy t) = is_floating t"
  "drawing (resize_selection dx dy t) = drawing t"
  "kind (resize_selection dx dy t) = kind t"
  by (simp_all add: resize_selection_def Let_def split: option.splits)

lemma handle_scaling_fields [simp]:
  "selection_mask (tool (handle_scaling x y p w)) = selection_mask (tool w)"
  "selection_rect (tool (handle_scaling x y p w)) = selection_rect (tool w)"
  "selected_content (tool (handle_scaling x y p w)) = selected_content (tool w)"
  "is_floating (tool (handle_scaling x y p w)) = is_floating (tool w)"
  "drawing (tool (handle_scaling x y p w)) = drawing (tool w)"
  by (simp_all add: handle_scaling_def Let_def split: option.splits)

lemma handle_rotation_fields [simp]:
  "selection_mask (tool (handle_rotation x y p w)) = selection_mask (tool w)"
  "selection_rect (tool (handle_rotation x y p w)) = selection_rect (tool w)"
  "selected_content (tool (handle_rotation x y p w)) = selected_content (tool w)"
  "is_floating (tool (handle_rotation x y p w)) = is_floating (tool w)"
  "drawing (tool (handle_rotation x y p w)) = drawing (tool w)"
  by (simp_all add: handle_rotation_def Let_def split: option.splits)

lemma BaseTool_mouse_move_fields [simp]:
  "selection_mask (BaseTool_mouse_move ev t) = selection_mask t"
  "selection_rect (BaseTool_mouse_move ev t) = selection_rect t"
  "selected_content (BaseTool_mouse_move ev t) = selected_content t"
  "is_floating (BaseTool_mouse_move ev t) = is_floating t"
  "drawing (BaseTool_mouse_move ev t) = drawing t"
  "is_resizing (BaseTool_mouse_move ev t) = is_resizing t"
  by (simp_all add: BaseTool_mouse_move_def Let_def)

lemma apply_square_constraint_fields [simp]:
  "selection_mask (apply_square_constraint t) = selection_mask t"
  "selection_rect (apply_square_constraint t) = selection_rect t"
  "selected_content (apply_square_constraint t) = selected_content t"
  "is_floating (apply_square_constraint t) = is_floating t"
  "drawing (apply_square_constraint t) = drawing t"
  by (simp_all add: apply_square_constraint_def Let_def split: option.splits prod.splits)

section \<open>Evaluating the model\<close>

lemmas model_defs = step_def mouse_press_def mouse_move_def mouse_release_def
  BaseSelectTool_mouse_press_def BaseSelectTool_mouse_move_def BaseSelectTool_mouse_release_def
  BaseTool_mouse_press_def BaseTool_mouse_move_def BaseTool_mouse_release_def
  start_new_selection_def update_preview_def BaseSelectTool_update_preview_def
  finalize_selection_def BaseSelectTool_finalize_selection_def capture_selection_def
  create_selection_mask_def update_selection_preview_def
  BaseSelectTool_update_selection_preview_def point_truthy_def rect_truthy_def
  gesture_active_def update_cursor_def emit_def status_emit_def py_index_def key_press_def
  BaseSelectTool_key_press_def last_pos_of_def move_selection_def translate_def
  commit_selection_def save_to_history_def draw_on_active_layer_def cancel_selection_def
  deque_append_def MAX_HISTORY_def cancel_def BaseSelectTool_cancel_def BaseTool_cancel_def
  reset_states_def non_operation_keys_def

lemmas example_defs = red_world_def new_tool_def left_button_def right_button_def
  red_controller_def initial_tool_state_def select_events_def move_events_def

lemmas handle_defs = update_handles_def update_resize_handles_def handle_rect_def
  corner_def midpoint_def transform_map_def hot_size_def handle_size_def py_int_def
  hit_scale_handle_def hit_rotate_handle_def get_resize_handle_at_def contains_def
  rect_isNull_def adjusted_def center_def c_div2_def is_point_in_selection_def
  BaseSelectTool_is_point_in_selection_def rect_polygon_def containsPoint_def
  isect_line_def pt_real_def rect_width_def rect_height_def QRect_def isValid_def

lemmas paint_defs = draw_transformed_selection_def draw_transformed_def draw_image_at_def
  draw_sub_image_def fill_rect_all_def new_image_def scaled_def image_size_def rect_size_def
  in_image_def blend_def comp_func_def qPremultiply_def qUnpremultiply_def BYTE_MUL_def
  qt_div_255_def white_def transparent_def red_layer_def red_image_def opaque_red_def

text \<open>
  For the selection (20,20)-(60,60) the rotate handle lies to the right of the top right
  corner, whatever the value of the square root in its position.
\<close>

lemma rotate_handle_example: "59 \<le> fst (rotate_handle_point (39, 39) 1 (59, 20))"
  by (simp add: rotate_handle_point_def Let_def)



text \<open>The state after the rectangle (20,20)-(60,60) has been dragged on the red document.\<close>

lemma select_events_world:
  "run qt_example select_events red_world = Inr (world_after red_world select_events)
   \<and> is_floating (tool (world_after red_world select_events))
   \<and> destroy_on_other_action (tool (world_after red_world select_events))
   \<and> kind (tool (world_after red_world select_events)) = RectSelectTool"
  by (simp add: world_after_def model_defs example_defs Let_def QRect_def isValid_def)


section \<open>Committing a moved selection\<close>

text \<open>
  C1. On the red document the rectangle (20,20)-(60,60) is selected, dragged by (+30, +10)
  and committed with Enter. The run returns, one history entry is saved and the document
  is marked as modified; the pixels of the target, such as (55,35) and (89,69), are red.
  But the pixels of the original footprint that the moved rectangle does not cover, such
  as (20,20), (25,25) and (49,59), are still opaque red, not transparent: both phases of
  the paint callback work at the current rectangle.
\<close>

theorem commit_after_move_keeps_source:
  "\<exists>w. run qt_example (select_events @ move_events @ [Key_press Key_Enter]) red_world = Inr w
       \<and> img_pix (layer_image (layers (ctl w) ! 0)) 20 20 = opaque_red
       \<and> img_pix (layer_image (layers (ctl w) ! 0)) 25 25 = opaque_red
       \<and> img_pix (layer_image (layers (ctl w) ! 0)) 49 59 = opaque_red
       \<and> img_pix (layer_image (layers (ctl w) ! 0)) 55 35 = opaque_red
       \<and> img_pix (layer_image (layers (ctl w) ! 0)) 89 69 = opaque_red
       \<and> length (undo_stack (ctl w)) = 1
       \<and> is_modified (ctl w)
       \<and> \<not> is_floating (tool w)"
  using rotate_handle_example
  by (simp add: model_defs example_defs handle_defs paint_defs Let_def)

theorem commit_after_move_keeps_source_witness:
  "\<exists>w. run qt_example (select_events @ move_events @ [Key_press Key_Enter]) red_world = Inr w
       \<and> alpha (img_pix (layer_image (layers (ctl w) ! 0)) 25 25) = 255"
  using commit_after_move_keeps_source by (auto simp: opaque_red_def)

section \<open>The transform state\<close>

text \<open>
  The scale factor and the rotation angle are Python floats; the model computes with real
  numbers. The clamp of the scale factor only compares numbers, so it keeps the factor
  between 0.1 and 10 whatever the arithmetic, and every finished outline starts from
  scale 1 and angle 0. The normalisation of the angle by the remainder \<open>py_fmod\<close> is exact
  here; the float remainder of Python rounds (a tiny negative angle gives exactly 360), so
  the half-open bound on the angle is a property of the floating-point arithmetic that this
  model does not decide.
\<close>

lemma handle_scaling_clamped:
  assumes "1 / 10 \<le> scale_factor (tool w)" and "scale_factor (tool w) \<le> 10"
  shows "1 / 10 \<le> scale_factor (tool (handle_scaling x y p w))
         \<and> scale_factor (tool (handle_scaling x y p w)) \<le> 10"
proof -
  have clamp: "1 / 10 \<le> max (1 / 10) (min v 10) \<and> max (1 / 10) (min v 10) \<le> (10 :: real)"
    for v :: real
    by (auto simp: max_def min_def)
  let ?keep = "handle_scaling x y p w = w"
  let ?set = "\<exists>v. scale_factor (tool (handle_scaling x y p w)) = max (1 / 10) (min v 10)"
  have "?keep \<or> ?set"
    by (auto simp: handle_scaling_def Let_def split: option.splits)
  then show ?thesis
  proof
    assume ?keep
    with assms show ?thesis by simp
  next
    assume ?set
    then obtain v where "scale_factor (tool (handle_scaling x y p w)) = max (1 / 10) (min v 10)"
      by blast
    with clamp [of v] show ?thesis by simp
  qed
qed

lemma finalize_resets_transform:
  assumes "finalize_selection qt w = Inr w'" and "is_floating (tool w')"
    and "\<not> is_floating (tool w)"
  shows "scale_factor (tool w') = 1 \<and> rotation_angle (tool w') = 0"
proof (cases "kind (tool w) = ImprovedPolygonSelectTool")
  case True
  with assms(1) have p: "polygon_finalize_selection qt w = Inr w'"
    by (simp add: finalize_selection_def)
  show ?thesis
  proof (cases "length (points (tool w)) < 3")
    case True
    with p have "w' = cancel (emit Msg_polygon_needs_3 w)"
      by (simp add: polygon_finalize_selection_def)
    then show ?thesis
      using assms(2,3)
      by (auto simp: cancel_def polygon_cancel_def BaseSelectTool_cancel_def
            cancel_selection_def BaseTool_cancel_def reset_states_def emit_def Let_def
            split: if_splits)
  next
    case False
    with p show ?thesis
      by (auto simp: polygon_finalize_selection_def capture_selection_def Let_def
               split: sum.splits option.splits if_splits)
  qed
next
  case False
  with assms(1) have b: "BaseSelectTool_finalize_selection qt w = Inr w'"
    by (simp add: finalize_selection_def)
  have c: "\<not> is_floating (tool (cancel w))"
    using False by (simp add: cancel_def BaseSelectTool_cancel_def cancel_selection_def Let_def)
  from b assms(2,3) c show ?thesis
    by (auto simp: BaseSelectTool_finalize_selection_def capture_selection_def Let_def emit_def
             split: sum.splits option.splits if_splits prod.splits)
qed

section \<open>Cancelling a floating selection\<close>

text \<open>
  C3. Whatever pointer and keyboard events came before, as long as none of them asked for a
  commit, every cancellation (Escape, a key that dismisses the selection, tool change,
  other operation, menu action, toolbar click) returns, and leaves the layers, the undo
  stack and the redo stack exactly as they were before the run started: the layer pixels
  are untouched and no history entry is added, whatever moves, scalings, rotations and
  resizes the run applied. Escape ends the floating state.
\<close>

theorem cancel_leaves_no_trace:
  assumes "quiet qt es w" and "run qt es w = Inr w1" and "cancels c w1"
  shows "\<exists>w2. step qt c w1 = Inr w2
           \<and> layers (ctl w2) = layers (ctl w)
           \<and> undo_stack (ctl w2) = undo_stack (ctl w)
           \<and> redo_stack (ctl w2) = redo_stack (ctl w)
           \<and> (c = Key_press Key_Escape \<and> \<not> is_creating (tool w1)
                \<longrightarrow> \<not> is_floating (tool w2) \<and> selected_content (tool w2) = None)"
proof -
  from assms(3) obtain w2 where s: "step qt c w1 = Inr w2"
    using cancels_total by blast
  from assms(1,2) have a: "same_document w w1" by (rule same_document_quiet_run)
  from s assms(3) have "same_document w1 w2"
    by (simp add: same_document_step cancels_not_commits)
  with a have "same_document w w2" by (rule same_document_trans)
  moreover have "c = Key_press Key_Escape \<and> \<not> is_creating (tool w1)
                \<longrightarrow> \<not> is_floating (tool w2) \<and> selected_content (tool w2) = None"
    using s escape_ends_floating by blast
  ultimately show ?thesis using s by (auto simp: same_document_def)
qed

lemma select_and_move_quiet: "quiet qt_example (select_events @ move_events) red_world"
  using rotate_handle_example
  by (simp add: commits_def model_defs example_defs handle_defs Let_def)

lemma select_and_move_runs:
  "\<exists>w1. run qt_example (select_events @ move_events) red_world = Inr w1
        \<and> is_floating (tool w1) \<and> \<not> is_creating (tool w1)
        \<and> selection_rect (tool w1) = Some (QRect 50 30 40 40)"
  using rotate_handle_example
  by (simp add: model_defs example_defs handle_defs Let_def)

theorem cancel_leaves_no_trace_witness:
  "quiet qt_example (select_events @ move_events) red_world
   \<and> (\<exists>w1 w2. run qt_example (select_events @ move_events) red_world = Inr w1
         \<and> is_floating (tool w1) \<and> cancels (Key_press Key_Escape) w1
         \<and> step qt_example (Key_press Key_Escape) w1 = Inr w2
         \<and> layers (ctl w2) = [red_layer] \<and> undo_stack (ctl w2) = []
         \<and> redo_stack (ctl w2) = [] \<and> \<not> is_floating (tool w2))"
proof -
  obtain w1 where r: "run qt_example (select_events @ move_events) red_world = Inr w1"
    and f: "is_floating (tool w1)" and nc: "\<not> is_creating (tool w1)"
    using select_and_move_runs by blast
  have c: "cancels (Key_press Key_Escape) w1" by (simp add: cancels_def)
  from cancel_leaves_no_trace [OF select_and_move_quiet r c] nc
  obtain w2 where "step qt_example (Key_press Key_Escape) w1 = Inr w2"
    and "layers (ctl w2) = layers (ctl red_world)"
    and "undo_stack (ctl w2) = undo_stack (ctl red_world)"
    and "redo_stack (ctl w2) = redo_stack (ctl red_world)"
    and "\<not> is_floating (tool w2)"
    by blast
  with r f c select_and_move_quiet show ?thesis
    by (auto simp: red_world_def red_controller_def)
qed

section \<open>Committing onto a locked layer\<close>

text \<open>
  What \<^verbatim>\<open>_commit_selection\<close> does when the active layer is locked: the history entry is
  saved first, then \<^verbatim>\<open>draw_on_active_layer\<close> refuses to draw and sends its message, then
  the floating state is cleared.
\<close>

lemma commit_on_locked_layer:
  assumes "is_floating (tool w)" and "selection_rect (tool w) = Some r" and "isValid r"
    and "selected_content (tool w) = Some content"
    and "0 \<le> active_layer_index (ctl w)"
    and "active_layer_index (ctl w) < int (length (layers (ctl w)))"
    and "locked (layers (ctl w) ! nat (active_layer_index (ctl w)))"
  shows "commit_selection qt w
         = cancel_selection (w\<lparr>ctl := status_emit Msg_layer_locked (save_to_history (ctl w))\<rparr>)"
proof -
  have "draw_on_active_layer (save_to_history (ctl w)) f False False False
        = status_emit Msg_layer_locked (save_to_history (ctl w))" for f
    using assms(5-7) by (simp add: draw_on_active_layer_def save_to_history_def)
  then show ?thesis
    using assms(1-4) by (simp add: commit_selection_def Let_def)
qed

lemma locked_select_world:
  "is_floating (tool (world_after locked_world select_events))
   \<and> selected_content (tool (world_after locked_world select_events)) \<noteq> None
   \<and> layers (ctl (world_after locked_world select_events)) = [red_layer\<lparr>locked := True\<rparr>]
   \<and> undo_stack (ctl (world_after locked_world select_events)) = []
   \<and> redo_stack (ctl (world_after locked_world select_events)) = [old_snapshot]
   \<and> status_log (ctl (world_after locked_world select_events)) = [Msg_selection_ready 40 40]"
  by (simp add: world_after_def locked_world_def model_defs example_defs Let_def QRect_def
        isValid_def)



section \<open>The size of the stored mask\<close>


















section \<open>The priority of the hit tests\<close>








section \<open>Keys that cancel a floating selection\<close>

text \<open>
  C7, as stated, fails: Caps Lock is not among the keys the claim lists, and pressing it
  while a selection floats leaves the state as it is, the selection still floating.
\<close>

theorem capslock_keeps_selection_counterexample:
  "Key_CapsLock \<notin> set spec_kept_keys
   \<and> is_floating (tool (world_after red_world select_events))
   \<and> step qt_example (Key_press Key_CapsLock) (world_after red_world select_events)
       = Inr (world_after red_world select_events)"
  using select_events_world
  by (simp add: spec_kept_keys_def step_def key_press_def BaseSelectTool_key_press_def
        non_operation_keys_def)

text \<open>
  C7, amended. While a selection floats and auto-destroy is on (the default), a key that is
  not in the source's list of non-operation keys (Shift, Ctrl, Alt, Meta, Caps Lock, Num
  Lock, Scroll Lock, the arrows, PageUp, PageDown, Home, End) and is not Escape, Enter or
  Return cancels the selection: the handler returns, nothing floats afterwards, and the
  document is untouched. A non-operation key changes nothing.
\<close>

theorem other_key_cancels:
  assumes "is_floating (tool w)" and "destroy_on_other_action (tool w)"
  shows "(k \<notin> set non_operation_keys \<and> k \<notin> {Key_Escape, Key_Enter, Key_Return} \<longrightarrow>
           (\<exists>w'. step qt (Key_press k) w = Inr w' \<and> \<not> is_floating (tool w')
              \<and> selection_rect (tool w') = None \<and> selected_content (tool w') = None
              \<and> selection_mask (tool w') = None \<and> same_document w w'))
         \<and> (k \<in> set non_operation_keys \<longrightarrow> step qt (Key_press k) w = Inr w)"
proof -
  have "BaseSelectTool_key_press qt k w = (cancel_selection w, False)"
    if "k \<notin> set non_operation_keys" and "k \<notin> {Key_Escape, Key_Enter, Key_Return}"
    using that assms by (simp add: BaseSelectTool_key_press_def)
  then have a: "step qt (Key_press k) w = Inr (cancel_selection w)"
    if "k \<notin> set non_operation_keys" and "k \<notin> {Key_Escape, Key_Enter, Key_Return}"
    using that by (simp add: step_def key_press_def polygon_key_press_def)
  have "BaseSelectTool_key_press qt k w = (w, False)" if "k \<in> set non_operation_keys"
    using that by (auto simp: BaseSelectTool_key_press_def non_operation_keys_def)
  then have b: "step qt (Key_press k) w = Inr w" if "k \<in> set non_operation_keys"
    using that by (auto simp: step_def key_press_def polygon_key_press_def non_operation_keys_def)
  have c: "\<not> is_floating (tool (cancel_selection w))
           \<and> selection_rect (tool (cancel_selection w)) = None
           \<and> selected_content (tool (cancel_selection w)) = None
           \<and> selection_mask (tool (cancel_selection w)) = None"
    by (simp add: cancel_selection_def Let_def)
  from a b c show ?thesis by auto
qed

theorem other_key_cancels_witness:
  "is_floating (tool (world_after red_world select_events))
   \<and> destroy_on_other_action (tool (world_after red_world select_events))
   \<and> Key_other 66 \<notin> set non_operation_keys
   \<and> Key_other 66 \<notin> {Key_Escape, Key_Enter, Key_Return}
   \<and> (\<exists>w'. step qt_example (Key_press (Key_other 66)) (world_after red_world select_events)
              = Inr w'
         \<and> \<not> is_floating (tool w') \<and> selected_content (tool w') = None)
   \<and> Key_Shift \<in> set non_operation_keys
   \<and> step qt_example (Key_press Key_Shift) (world_after red_world select_events)
       = Inr (world_after red_world select_events)"
proof -
  have f: "is_floating (tool (world_after red_world select_events))"
    and d: "destroy_on_other_action (tool (world_after red_world select_events))"
    using select_events_world by simp_all
  have k: "Key_other 66 \<notin> set non_operation_keys"
    "Key_other 66 \<notin> {Key_Escape, Key_Enter, Key_Return}"
    "Key_Shift \<in> set non_operation_keys"
    by (simp_all add: non_operation_keys_def)
  from other_key_cancels [OF f d, of "Key_other 66" qt_example]
       other_key_cancels [OF f d, of Key_Shift qt_example] f d k
  show ?thesis by blast
qed

section \<open>Outlines that are too small\<close>

lemma cancel_result:
  "\<not> is_floating (tool (cancel w)) \<or> is_creating (tool w)"
  "kind (tool w) \<noteq> ImprovedPolygonSelectTool \<Longrightarrow>
     cancel w = cancel_selection (BaseTool_cancel w)"
  by (auto simp: cancel_def polygon_cancel_def BaseSelectTool_cancel_def cancel_selection_def
        Let_def)

text \<open>
  C8. A rectangle or ellipse drag is in progress (the tool is drawing, nothing floats, no
  gesture runs, and no selection is stored). If the outline between the start and the end
  point is less than 2 pixels wide or less than 2 pixels high, releasing the pointer returns
  and creates nothing: nothing floats, no rectangle, no captured content and no mask are
  stored, the tool neither draws nor runs a gesture, the document is untouched, and the only
  messages that may be sent are the two cancel messages.
\<close>

theorem small_outline_discarded:
  assumes "kind (tool w) \<noteq> ImprovedPolygonSelectTool"
    and "drawing (tool w)" and "\<not> is_floating (tool w)" and "\<not> gesture_active (tool w)"
    and "selection_rect (tool w) = None" and "selected_content (tool w) = None"
    and "selection_mask (tool w) = None"
    and "start_pos (tool w) = Some (sx, sy)" and "end_pos (tool w) = Some (ex, ey)"
    and "\<bar>ex - sx\<bar> < 2 \<or> \<bar>ey - sy\<bar> < 2"
  shows "\<exists>w'. step qt (Mouse_release ev x y) w = Inr w'
           \<and> \<not> is_floating (tool w') \<and> selection_rect (tool w') = None
           \<and> selected_content (tool w') = None \<and> selection_mask (tool w') = None
           \<and> \<not> drawing (tool w') \<and> \<not> gesture_active (tool w')
           \<and> same_document w w'
           \<and> set (status_log (ctl w')) \<subseteq>
               set (status_log (ctl w)) \<union> {Msg_operation_cancelled, Msg_selection_cancelled}"
proof -
  let ?t = "(BaseTool_mouse_release ev (tool w))\<lparr>drawing := False\<rparr>"
  let ?w0 = "w\<lparr>tool := ?t\<rparr>"
  have t: "kind ?t = kind (tool w)" "start_pos ?t = Some (sx, sy)" "end_pos ?t = Some (ex, ey)"
    "\<not> is_floating ?t" "selection_rect ?t = None" "selected_content ?t = None"
    "selection_mask ?t = None" "\<not> gesture_active ?t" "\<not> drawing ?t"
    using assms by (simp_all add: BaseTool_mouse_release_def Let_def gesture_active_def)
  have small: "\<not> (max sx ex - min sx ex > 1 \<and> max sy ey - min sy ey > 1)"
    using assms(10) by auto
  have rel: "mouse_release qt ev w = BaseSelectTool_finalize_selection qt ?w0"
    using assms(1,2,4)
    by (simp add: mouse_release_def BaseSelectTool_mouse_release_def Let_def
          finalize_selection_def gesture_active_def BaseTool_mouse_release_def)
  have fin: "BaseSelectTool_finalize_selection qt ?w0 = Inr ?w0
             \<or> BaseSelectTool_finalize_selection qt ?w0 = Inr (cancel ?w0)"
    using t(2,3) small
    by (auto simp: BaseSelectTool_finalize_selection_def Let_def)
  have c: "cancel ?w0 = cancel_selection (BaseTool_cancel ?w0)"
    using assms(1) t(1) by (simp add: cancel_result(2))
  let ?fix = "\<lambda>v. v\<lparr>ctl := (ctl v)\<lparr>current_operation_saved := False\<rparr>\<rparr>"
  from fin show ?thesis
  proof
    assume "BaseSelectTool_finalize_selection qt ?w0 = Inr ?w0"
    with rel have "step qt (Mouse_release ev x y) w = Inr (?fix ?w0)"
      by (simp add: step_def)
    moreover have "\<not> is_floating (tool (?fix ?w0))" "selection_rect (tool (?fix ?w0)) = None"
      "selected_content (tool (?fix ?w0)) = None" "selection_mask (tool (?fix ?w0)) = None"
      "\<not> drawing (tool (?fix ?w0))" "\<not> gesture_active (tool (?fix ?w0))"
      "same_document w (?fix ?w0)" "status_log (ctl (?fix ?w0)) = status_log (ctl w)"
      using t by (simp_all add: same_document_def)
    ultimately show ?thesis by auto
  next
    assume "BaseSelectTool_finalize_selection qt ?w0 = Inr (cancel ?w0)"
    with rel c have "step qt (Mouse_release ev x y) w
                     = Inr (?fix (cancel_selection (BaseTool_cancel ?w0)))"
      by (simp add: step_def)
    moreover have "\<not> is_floating (tool (?fix (cancel_selection (BaseTool_cancel ?w0))))"
      "selection_rect (tool (?fix (cancel_selection (BaseTool_cancel ?w0)))) = None"
      "selected_content (tool (?fix (cancel_selection (BaseTool_cancel ?w0)))) = None"
      "selection_mask (tool (?fix (cancel_selection (BaseTool_cancel ?w0)))) = None"
      "\<not> drawing (tool (?fix (cancel_selection (BaseTool_cancel ?w0))))"
      "\<not> gesture_active (tool (?fix (cancel_selection (BaseTool_cancel ?w0))))"
      "same_document w (?fix (cancel_selection (BaseTool_cancel ?w0)))"
      "status_log (ctl (?fix (cancel_selection (BaseTool_cancel ?w0))))
         = status_log (ctl w) @ [Msg_operation_cancelled, Msg_selection_cancelled]"
      using assms(4)
      by (simp_all add: cancel_selection_def BaseTool_cancel_def reset_states_def Let_def
            same_document_def status_emit_def gesture_active_def BaseTool_mouse_release_def)
    ultimately show ?thesis by auto
  qed
qed

lemma tiny_drag_world:
  "kind (tool (world_after red_world tiny_drag)) = RectSelectTool
   \<and> drawing (tool (world_after red_world tiny_drag))
   \<and> \<not> is_floating (tool (world_after red_world tiny_drag))
   \<and> \<not> gesture_active (tool (world_after red_world tiny_drag))
   \<and> selection_rect (tool (world_after red_world tiny_drag)) = None
   \<and> selected_content (tool (world_after red_world tiny_drag)) = None
   \<and> selection_mask (tool (world_after red_world tiny_drag)) = None
   \<and> start_pos (tool (world_after red_world tiny_drag)) = Some (10, 10)
   \<and> end_pos (tool (world_after red_world tiny_drag)) = Some (10, 11)
   \<and> layers (ctl (world_after red_world tiny_drag)) = [red_layer]
   \<and> undo_stack (ctl (world_after red_world tiny_drag)) = []"
  by (simp add: world_after_def tiny_drag_def model_defs example_defs Let_def)

theorem small_outline_discarded_witness:
  "kind (tool (world_after red_world tiny_drag)) \<noteq> ImprovedPolygonSelectTool
   \<and> drawing (tool (world_after red_world tiny_drag))
   \<and> \<not> is_floating (tool (world_after red_world tiny_drag))
   \<and> \<not> gesture_active (tool (world_after red_world tiny_drag))
   \<and> selection_rect (tool (world_after red_world tiny_drag)) = None
   \<and> selected_content (tool (world_after red_world tiny_drag)) = None
   \<and> selection_mask (tool (world_after red_world tiny_drag)) = None
   \<and> start_pos (tool (world_after red_world tiny_drag)) = Some (10, 10)
   \<and> end_pos (tool (world_after red_world tiny_drag)) = Some (10, 11)
   \<and> \<bar>10 - 10 :: int\<bar> < 2
   \<and> (\<exists>w'. step qt_example (Mouse_release left_button 10 11) (world_after red_world tiny_drag)
              = Inr w'
         \<and> \<not> is_floating (tool w') \<and> selection_rect (tool w') = None
         \<and> selected_content (tool w') = None \<and> \<not> drawing (tool w')
         \<and> layers (ctl w') = [red_layer] \<and> undo_stack (ctl w') = [])"
proof -
  let ?w = "world_after red_world tiny_drag"
  note h = tiny_drag_world
  have k: "kind (tool ?w) \<noteq> ImprovedPolygonSelectTool" using h by simp
  have d: "drawing (tool ?w)" and nf: "\<not> is_floating (tool ?w)"
    and ng: "\<not> gesture_active (tool ?w)" and sr: "selection_rect (tool ?w) = None"
    and sc: "selected_content (tool ?w) = None" and sm: "selection_mask (tool ?w) = None"
    and sp: "start_pos (tool ?w) = Some (10, 10)" and ep: "end_pos (tool ?w) = Some (10, 11)"
    using h by simp_all
  have s: "\<bar>10 - 10 :: int\<bar> < 2 \<or> \<bar>11 - 10 :: int\<bar> < 2" by simp
  from small_outline_discarded [OF k d nf ng sr sc sm sp ep s, of qt_example left_button 10 11]
  obtain w' where
    "step qt_example (Mouse_release left_button 10 11) ?w = Inr w'"
    "\<not> is_floating (tool w')" "selection_rect (tool w') = None"
    "selected_content (tool w') = None" "\<not> drawing (tool w')"
    "same_document ?w w'"
    by blast
  with h show ?thesis by (auto simp: same_document_def)
qed

section \<open>Finishing a polygon with too few vertices\<close>

lemma two_clicks_world:
  "run qt_example two_clicks polygon_world = Inr (world_after polygon_world two_clicks)
   \<and> kind (tool (world_after polygon_world two_clicks)) = ImprovedPolygonSelectTool
   \<and> is_creating (tool (world_after polygon_world two_clicks))
   \<and> \<not> is_floating (tool (world_after polygon_world two_clicks))
   \<and> points (tool (world_after polygon_world two_clicks)) = [(10, 10), (30, 10)]
   \<and> status_log (ctl (world_after polygon_world two_clicks))
       = [Msg_polygon_first_point, Msg_polygon_point 2]"
  by (simp add: world_after_def two_clicks_def polygon_world_def polygon_mouse_press_def
        polygon_update_preview_def model_defs example_defs Let_def)

text \<open>
  Both ways of finishing keep the tool accumulating, with its vertices, when fewer than
  three are placed; Enter and Return send the message that three points are needed, the
  right button sends nothing.
\<close>

lemma enter_few_vertices:
  assumes "kind (tool w) = ImprovedPolygonSelectTool" and "is_creating (tool w)"
    and "\<not> is_floating (tool w)" and "length (points (tool w)) < 3"
    and "k \<in> {Key_Enter, Key_Return}"
  shows "step qt (Key_press k) w = Inr (emit Msg_polygon_needs_3_to_finish w)"
  using assms by (auto simp: step_def key_press_def polygon_key_press_def)

lemma right_click_few_vertices:
  assumes "kind (tool w) = ImprovedPolygonSelectTool" and "is_creating (tool w)"
    and "\<not> is_floating (tool w)" and "length (points (tool w)) < 3"
    and "ev_button ev = RightButton"
  shows "step qt (Mouse_press ev x y) w = Inr w"
  using assms by (simp add: step_def mouse_press_def polygon_mouse_press_def Let_def)

text \<open>
  C9. With two vertices placed, Enter is rejected with the message and the state is
  otherwise unchanged, as the claim says. The right button is rejected too, and the two
  vertices stay, but the state, the message log included, is exactly what it was: no
  message reaches the user.
\<close>

theorem right_click_two_vertices_silent:
  "length (points (tool (world_after polygon_world two_clicks))) = 2
   \<and> is_creating (tool (world_after polygon_world two_clicks))
   \<and> step qt_example (Key_press Key_Enter) (world_after polygon_world two_clicks)
       = Inr (emit Msg_polygon_needs_3_to_finish (world_after polygon_world two_clicks))
   \<and> step qt_example (Mouse_press right_button 30 30) (world_after polygon_world two_clicks)
       = Inr (world_after polygon_world two_clicks)
   \<and> status_log (ctl (world_after polygon_world two_clicks))
       = [Msg_polygon_first_point, Msg_polygon_point 2]"
proof -
  let ?w = "world_after polygon_world two_clicks"
  have k: "kind (tool ?w) = ImprovedPolygonSelectTool" and c: "is_creating (tool ?w)"
    and f: "\<not> is_floating (tool ?w)" and p: "points (tool ?w) = [(10, 10), (30, 10)]"
    using two_clicks_world by simp_all
  have l: "length (points (tool ?w)) < 3" using p by simp
  have r: "ev_button right_button = RightButton" by (simp add: right_button_def)
  from enter_few_vertices [OF k c f l, of Key_Enter qt_example]
       right_click_few_vertices [OF k c f l r, of qt_example 30 30]
       two_clicks_world c p
  show ?thesis by simp
qed

theorem right_click_two_vertices_silent_witness:
  "\<exists>w. step qt_example (Mouse_press right_button 30 30) (world_after polygon_world two_clicks)
          = Inr w
       \<and> Msg_polygon_needs_3_to_finish \<notin> set (status_log (ctl w))
       \<and> Msg_polygon_needs_3 \<notin> set (status_log (ctl w))
       \<and> length (points (tool w)) = 2"
  using right_click_two_vertices_silent by simp

section \<open>Floating without captured content\<close>


lemma floating_empty_tool:
  "is_floating t' = is_floating (tool w) \<Longrightarrow> selected_content t' = selected_content (tool w) \<Longrightarrow>
   drawing t' = drawing (tool w) \<Longrightarrow> floating_empty (w'\<lparr>tool := t'\<rparr>) = floating_empty w"
  by (simp add: floating_empty_def)













end
